theory Spec2Isabelle
  imports Main "HOL-Library.Char_ord" "HOL-Library.List_Lexorder"
begin

section \<open>Python values\<close>

text \<open>
  The values that travel through the clients and the tools are what \<^verbatim>\<open>response.json()\<close>
  decodes and what the tools put into the dictionaries they hand to \<^verbatim>\<open>json.dumps\<close>.
  A dictionary keeps its items in insertion order, so it is an association list.
  A finite float \<open>Finite m k\<close> stands for \<open>m / 2 ^ k\<close>.  A \<open>char\<close> stands for one
  code point below 256.
\<close>

datatype pyfloat = Finite int nat | PosInf | NegInf | NaN

datatype json =
    JNull
  | JBool bool
  | JInt int
  | JFloat pyfloat
  | JStr string
  | JList "json list"
  | JObj "(string \<times> json) list"

datatype exn =
    ValueError string
  | KeyError string
  | TypeError string
  | AttributeError string
  | IndexError string
  | JSONDecodeError string
  | CsvError string
  | OtherError string string

text \<open>\<^verbatim>\<open>str(e)\<close> and \<^verbatim>\<open>type(e).__name__\<close>.  A \<^verbatim>\<open>KeyError\<close> prints the repr of its key.
  The wording of the messages of the interpreter's own exceptions is CPython's; no
  statement below depends on it.\<close>

fun str_exn :: "exn \<Rightarrow> string" where
  "str_exn (ValueError m) = m"
| "str_exn (KeyError k) = [CHR 0x27] @ k @ [CHR 0x27]"
| "str_exn (TypeError m) = m"
| "str_exn (AttributeError m) = m"
| "str_exn (IndexError m) = m"
| "str_exn (JSONDecodeError m) = m"
| "str_exn (CsvError m) = m"
| "str_exn (OtherError n m) = m"

fun type_name_exn :: "exn \<Rightarrow> string" where
  "type_name_exn (ValueError m) = ''ValueError''"
| "type_name_exn (KeyError k) = ''KeyError''"
| "type_name_exn (TypeError m) = ''TypeError''"
| "type_name_exn (AttributeError m) = ''AttributeError''"
| "type_name_exn (IndexError m) = ''IndexError''"
| "type_name_exn (JSONDecodeError m) = ''JSONDecodeError''"
| "type_name_exn (CsvError m) = ''Error''"
| "type_name_exn (OtherError n m) = n"

fun is_AttributeError :: "exn \<Rightarrow> bool" where
  "is_AttributeError (AttributeError m) = True"
| "is_AttributeError e = False"

text \<open>\<^verbatim>\<open>type(x).__name__\<close>\<close>

fun type_name :: "json \<Rightarrow> string" where
  "type_name JNull = ''NoneType''"
| "type_name (JBool b) = ''bool''"
| "type_name (JInt i) = ''int''"
| "type_name (JFloat f) = ''float''"
| "type_name (JStr s) = ''str''"
| "type_name (JList xs) = ''list''"
| "type_name (JObj kvs) = ''dict''"

text \<open>Truth value of an object, as \<^verbatim>\<open>if x\<close>, \<^verbatim>\<open>not x\<close>, \<^verbatim>\<open>x and y\<close> test it.\<close>

fun truthy :: "json \<Rightarrow> bool" where
  "truthy JNull = False"
| "truthy (JBool b) = b"
| "truthy (JInt i) = (i \<noteq> 0)"
| "truthy (JFloat (Finite m k)) = (m \<noteq> 0)"
| "truthy (JFloat f) = True"
| "truthy (JStr s) = (s \<noteq> [])"
| "truthy (JList xs) = (xs \<noteq> [])"
| "truthy (JObj kvs) = (kvs \<noteq> [])"

text \<open>\<^verbatim>\<open>isinstance(x, dict)\<close>\<close>

fun is_dict :: "json \<Rightarrow> bool" where
  "is_dict (JObj kvs) = True"
| "is_dict j = False"

text \<open>Dictionary primitives: \<^verbatim>\<open>d.get(k)\<close> on the items, \<^verbatim>\<open>d[k] = v\<close> (an existing key keeps
  its place, a new one goes to the end), \<^verbatim>\<open>k in d\<close>.\<close>

definition dict_get :: "('k \<times> 'v) list \<Rightarrow> 'k \<Rightarrow> 'v option" where
  "dict_get d k = map_of d k"

fun dict_set :: "('k \<times> 'v) list \<Rightarrow> 'k \<Rightarrow> 'v \<Rightarrow> ('k \<times> 'v) list" where
  "dict_set [] k v = [(k, v)]"
| "dict_set ((k', v') # d) k v =
     (if k' = k then (k, v) # d else (k', v') # dict_set d k v)"

definition has_key :: "json \<Rightarrow> string \<Rightarrow> bool" where
  "has_key j k = (case j of JObj kvs \<Rightarrow> dict_get kvs k \<noteq> None | _ \<Rightarrow> False)"

text \<open>\<^verbatim>\<open>sub in s\<close> on strings.\<close>

fun is_substring :: "string \<Rightarrow> string \<Rightarrow> bool" where
  "is_substring sub [] = (sub = [])"
| "is_substring sub (c # cs) = (take (length sub) (c # cs) = sub \<or> is_substring sub cs)"

text \<open>\<^verbatim>\<open>k in x\<close> for a string \<open>k\<close>: key membership in a dictionary, element membership in
  a list, substring test in a string, \<^verbatim>\<open>TypeError\<close> on anything else.\<close>

fun py_in :: "string \<Rightarrow> json \<Rightarrow> exn + bool" where
  "py_in k (JObj kvs) = Inr (dict_get kvs k \<noteq> None)"
| "py_in k (JList xs) = Inr (JStr k \<in> set xs)"
| "py_in k (JStr s) = Inr (is_substring k s)"
| "py_in k j = Inl (TypeError (''argument of type '' @ [CHR 0x27] @ type_name j @ [CHR 0x27] @ '' is not iterable''))"

text \<open>\<^verbatim>\<open>x[k]\<close> for a string \<open>k\<close>.\<close>

fun py_getitem :: "json \<Rightarrow> string \<Rightarrow> exn + json" where
  "py_getitem (JObj kvs) k = (case dict_get kvs k of Some v \<Rightarrow> Inr v | None \<Rightarrow> Inl (KeyError k))"
| "py_getitem (JList xs) k = Inl (TypeError ''list indices must be integers or slices, not str'')"
| "py_getitem (JStr s) k = Inl (TypeError ''string indices must be integers, not str'')"
| "py_getitem j k = Inl (TypeError ([CHR 0x27] @ type_name j @ [CHR 0x27] @ '' object is not subscriptable''))"

text \<open>\<^verbatim>\<open>x.get(k, default)\<close>: only a dictionary has the method.\<close>

fun py_get :: "json \<Rightarrow> string \<Rightarrow> json \<Rightarrow> exn + json" where
  "py_get (JObj kvs) k d = Inr (case dict_get kvs k of Some v \<Rightarrow> v | None \<Rightarrow> d)"
| "py_get j k d = Inl (AttributeError ([CHR 0x27] @ type_name j @ [CHR 0x27] @ '' object has no attribute '' @ [CHR 0x27] @ ''get'' @ [CHR 0x27]))"

text \<open>\<^verbatim>\<open>for x in v\<close>: the elements of a list, the keys of a dictionary, the characters of a
  string.\<close>

fun py_iter :: "json \<Rightarrow> exn + json list" where
  "py_iter (JList xs) = Inr xs"
| "py_iter (JObj kvs) = Inr (map (\<lambda>kv. JStr (fst kv)) kvs)"
| "py_iter (JStr s) = Inr (map (\<lambda>c. JStr [c]) s)"
| "py_iter j = Inl (TypeError ([CHR 0x27] @ type_name j @ [CHR 0x27] @ '' object is not iterable''))"

text \<open>\<^verbatim>\<open>len(x)\<close>\<close>

fun py_len :: "json \<Rightarrow> exn + nat" where
  "py_len (JList xs) = Inr (length xs)"
| "py_len (JObj kvs) = Inr (length kvs)"
| "py_len (JStr s) = Inr (length s)"
| "py_len j = Inl (TypeError (''object of type '' @ [CHR 0x27] @ type_name j @ [CHR 0x27] @ '' has no len()''))"

text \<open>\<^verbatim>\<open>str(n)\<close> for an integer.\<close>

fun str_nat :: "nat \<Rightarrow> string" where
  "str_nat n = (if n < 10 then [char_of (48 + n)] else str_nat (n div 10) @ [char_of (48 + n mod 10)])"

declare str_nat.simps [simp del]

definition str_int :: "int \<Rightarrow> string" where
  "str_int i = (if i < 0 then CHR ''-'' # str_nat (nat (- i)) else str_nat (nat i))"

text \<open>An optional string as a value (\<^verbatim>\<open>None\<close> or the string), and \<^verbatim>\<open>x or default\<close> on it.\<close>

definition opt_str :: "string option \<Rightarrow> json" where
  "opt_str s = (case s of None \<Rightarrow> JNull | Some t \<Rightarrow> JStr t)"

definition opt_int :: "int option \<Rightarrow> json" where
  "opt_int s = (case s of None \<Rightarrow> JNull | Some t \<Rightarrow> JInt t)"

definition str_or :: "string option \<Rightarrow> string \<Rightarrow> string" where
  "str_or s d = (case s of None \<Rightarrow> d | Some t \<Rightarrow> if t = [] then d else t)"

section \<open>The outside world\<close>

datatype http_method = GET | POST

record request =
  req_method :: http_method
  req_url :: string
  req_headers :: "(string \<times> json) list"
  req_data :: "json option"
  req_timeout :: nat

text \<open>A response of the \<^verbatim>\<open>requests\<close> library: \<open>json_body\<close> is what \<^verbatim>\<open>response.json()\<close>
  does, which raises on a body that is not JSON.\<close>

record http_response =
  status_code :: int
  text_body :: string
  json_body :: "exn + json"

datatype outcome =
    Response http_response
  | ConnectionFailed
  | Failure exn

text \<open>
  What the code reads from outside itself: the environment variables (after
  \<^verbatim>\<open>load_dotenv()\<close>), whether \<^verbatim>\<open>.env\<close> exists, the provider's answer to a request
  (\<open>ConnectionFailed\<close> is any \<^verbatim>\<open>requests.ConnectionError\<close>, \<open>Failure\<close> any other
  exception of the call), the clock as \<^verbatim>\<open>strftime("%Y-%m-%d")\<close> renders it, and three
  library functions that are taken as they are: \<^verbatim>\<open>str\<close> on a decoded value,
  \<^verbatim>\<open>csv.reader(s.splitlines(), delimiter=';')\<close> read to the end, and nothing else.
\<close>

record world =
  env_TOPVISOR_USER_ID :: "string option"
  env_TOPVISOR_API_KEY :: "string option"
  env_AHREFS_API_KEY :: "string option"
  dotenv_exists :: bool
  transport :: "request \<Rightarrow> outcome"
  today :: string
  week_ago :: string
  py_str :: "json \<Rightarrow> string"
  csv_rows :: "string \<Rightarrow> exn + string list list"

section \<open>Actions: exceptions and the log of requests sent\<close>

text \<open>An action runs on the list of the requests sent so far, extends it by the
  requests it sends, and either raises (\<open>Inl\<close>) or returns (\<open>Inr\<close>).\<close>

type_synonym 'a act = "request list \<Rightarrow> (exn + 'a) \<times> request list"

definition ret :: "'a \<Rightarrow> 'a act" where
  "ret x = (\<lambda>log. (Inr x, log))"

definition lift :: "exn + 'a \<Rightarrow> 'a act" where
  "lift r = (\<lambda>log. (r, log))"

definition bnd :: "'a act \<Rightarrow> ('a \<Rightarrow> 'b act) \<Rightarrow> 'b act" where
  "bnd m f = (\<lambda>log. case m log of (Inl e, log') \<Rightarrow> (Inl e, log') | (Inr x, log') \<Rightarrow> f x log')"

text \<open>\<^verbatim>\<open>try: return body  except Exception as e: return handler(e)\<close>\<close>

definition try_except :: "'a act \<Rightarrow> (exn \<Rightarrow> 'a) \<Rightarrow> request list \<Rightarrow> 'a \<times> request list" where
  "try_except body handler = (\<lambda>log. case body log of (Inl e, log') \<Rightarrow> (handler e, log') | (Inr x, log') \<Rightarrow> (x, log'))"

section \<open>The Topvisor client (src/topvisor.py)\<close>

record topvisor_api =
  tv_user_id :: "string option"
  tv_api_key :: string
  tv_base_url :: string
  tv_headers :: "(string \<times> json) list"

text \<open>\<^verbatim>\<open>TopvisorAPI.__init__\<close>: \<^verbatim>\<open>if not self.api_key: raise ValueError(...)\<close>.\<close>

definition TopvisorAPI_init :: "string option \<Rightarrow> string option \<Rightarrow> topvisor_api act" where
  "TopvisorAPI_init user_id api_key =
     (case api_key of
        None \<Rightarrow> lift (Inl (ValueError ''API key Topvisor not found! ''))
      | Some key \<Rightarrow>
          if key = [] then lift (Inl (ValueError ''API key Topvisor not found! ''))
          else ret \<lparr> tv_user_id = user_id, tv_api_key = key,
                     tv_base_url = ''https://api.topvisor.com/v2/json/get'',
                     tv_headers = [(''Content-Type'', JStr ''application/json''),
                                   (''User-Id'', opt_str user_id),
                                   (''Authorization'', JStr (''bearer '' @ key))] \<rparr>)"

text \<open>\<^verbatim>\<open>TopvisorAPI._make_request\<close>: one POST, every outcome turned into a dictionary.\<close>

definition TopvisorAPI_classify :: "bool \<Rightarrow> outcome \<Rightarrow> json" where
  "TopvisorAPI_classify csv out =
     (case out of
        Response r \<Rightarrow>
          if status_code r = 200 then
            (if csv then JObj [(''result'', JStr (text_body r)), (''status_code'', JInt 200)]
             else (case json_body r of
                     Inr d \<Rightarrow> d
                   | Inl e \<Rightarrow> JObj [(''error'', JStr (''Unexpected error: '' @ str_exn e))]))
          else if status_code r = 401 then
            JObj [(''error'', JStr ''Invalid API key''), (''status_code'', JInt 401)]
          else if status_code r = 403 then
            JObj [(''error'', JStr ''Insufficient access permissions''), (''status_code'', JInt 403)]
          else
            JObj [(''error'', JStr (''API error '' @ str_int (status_code r))),
                  (''details'', JStr (text_body r))]
      | ConnectionFailed \<Rightarrow> JObj [(''error'', JStr ''No internet connection or API unavailable'')]
      | Failure e \<Rightarrow> JObj [(''error'', JStr (''Unexpected error: '' @ str_exn e))])"

definition TopvisorAPI_request :: "topvisor_api \<Rightarrow> string \<Rightarrow> json option \<Rightarrow> request" where
  "TopvisorAPI_request self endpoint payload =
     \<lparr> req_method = POST, req_url = tv_base_url self @ ''/'' @ endpoint,
       req_headers = tv_headers self, req_data = payload, req_timeout = 60 \<rparr>"

definition TopvisorAPI_make_request ::
    "world \<Rightarrow> topvisor_api \<Rightarrow> string \<Rightarrow> json option \<Rightarrow> bool \<Rightarrow> json act" where
  "TopvisorAPI_make_request w self endpoint payload csv =
     (\<lambda>log. let req = TopvisorAPI_request self endpoint payload
            in (Inr (TopvisorAPI_classify csv (transport w req)), log @ [req]))"

definition TopvisorAPI_get_projects :: "world \<Rightarrow> topvisor_api \<Rightarrow> json act" where
  "TopvisorAPI_get_projects w self = TopvisorAPI_make_request w self ''projects_2/projects'' None False"

text \<open>\<^verbatim>\<open>if folder_id:\<close> and \<^verbatim>\<open>if group_id:\<close> test the truth value of an optional integer.\<close>

definition opt_int_truthy :: "int option \<Rightarrow> bool" where
  "opt_int_truthy x = (case x of None \<Rightarrow> False | Some i \<Rightarrow> i \<noteq> 0)"

definition keywords_payload :: "int \<Rightarrow> int option \<Rightarrow> int option \<Rightarrow> json" where
  "keywords_payload project_id folder_id group_id =
     (let payload = [(''project_id'', JInt project_id)];
          payload = (if opt_int_truthy folder_id then dict_set payload ''folder_id'' (opt_int folder_id) else payload);
          payload = (if opt_int_truthy group_id then dict_set payload ''group_id'' (opt_int group_id) else payload)
      in JObj payload)"

definition TopvisorAPI_get_project_keywords ::
    "world \<Rightarrow> topvisor_api \<Rightarrow> int \<Rightarrow> int option \<Rightarrow> int option \<Rightarrow> json act" where
  "TopvisorAPI_get_project_keywords w self project_id folder_id group_id =
     TopvisorAPI_make_request w self ''keywords_2/keywords''
       (Some (keywords_payload project_id folder_id group_id)) False"

definition TopvisorAPI_get_project_positions ::
    "world \<Rightarrow> topvisor_api \<Rightarrow> int \<Rightarrow> json \<Rightarrow> string option \<Rightarrow> string option \<Rightarrow> int \<Rightarrow> int \<Rightarrow> json act" where
  "TopvisorAPI_get_project_positions w self project_id regions_indexes date1 date2 limit offset =
     (let d1 = (case date1 of None \<Rightarrow> week_ago w | Some d \<Rightarrow> d);
          d2 = (case date2 of None \<Rightarrow> today w | Some d \<Rightarrow> d);
          payload = JObj [(''project_id'', JInt project_id),
                          (''regions_indexes'', regions_indexes),
                          (''date1'', JStr d1), (''date2'', JStr d2),
                          (''limit'', JInt limit), (''offset'', JInt offset)]
      in TopvisorAPI_make_request w self ''positions_2/history'' (Some payload) False)"

definition TopvisorAPI_get_positions_summary ::
    "world \<Rightarrow> topvisor_api \<Rightarrow> int \<Rightarrow> string option \<Rightarrow> string option \<Rightarrow> json act" where
  "TopvisorAPI_get_positions_summary w self project_id date1 date2 =
     (let d1 = (case date1 of None \<Rightarrow> week_ago w | Some d \<Rightarrow> d);
          d2 = (case date2 of None \<Rightarrow> today w | Some d \<Rightarrow> d);
          payload = JObj [(''project_id'', JInt project_id), (''date1'', JStr d1), (''date2'', JStr d2)]
      in TopvisorAPI_make_request w self ''positions_2/summary'' (Some payload) False)"

definition TopvisorAPI_get_project_competitors :: "world \<Rightarrow> topvisor_api \<Rightarrow> int \<Rightarrow> json act" where
  "TopvisorAPI_get_project_competitors w self project_id =
     TopvisorAPI_make_request w self ''projects_2/competitors''
       (Some (JObj [(''project_id'', JInt project_id)])) False"

text \<open>One row of the CSV export: \<^verbatim>\<open>row[0]\<close> .. \<^verbatim>\<open>row[5]\<close>, an \<^verbatim>\<open>IndexError\<close> on a shorter row.\<close>

definition region_row :: "string list \<Rightarrow> exn + json" where
  "region_row row =
     (if length row < 6 then Inl (IndexError ''list index out of range'')
      else Inr (JObj [(''search_engine_key'', JStr (row ! 0)), (''name'', JStr (row ! 1)),
                      (''country_code'', JStr (row ! 2)), (''language'', JStr (row ! 3)),
                      (''region_device'', JStr (row ! 4)), (''depth'', JStr (row ! 5))]))"

text \<open>A \<^verbatim>\<open>for\<close> loop that appends one value per element and stops at the first exception.\<close>

fun map_exn :: "('a \<Rightarrow> exn + 'b) \<Rightarrow> 'a list \<Rightarrow> exn + 'b list" where
  "map_exn f [] = Inr []"
| "map_exn f (x # xs) =
     (case f x of
        Inl e \<Rightarrow> Inl e
      | Inr y \<Rightarrow> (case map_exn f xs of Inl e \<Rightarrow> Inl e | Inr ys \<Rightarrow> Inr (y # ys)))"

text \<open>What \<^verbatim>\<open>get_project_regions\<close> does with the dictionary \<^verbatim>\<open>_make_request\<close> gave it:
  \<^verbatim>\<open>response["result"]\<close> first, with no test for an \<^verbatim>\<open>"error"\<close> key.\<close>

definition regions_of_response :: "world \<Rightarrow> json \<Rightarrow> exn + json" where
  "regions_of_response w response =
     (case py_getitem response ''result'' of
        Inl e \<Rightarrow> Inl e
      | Inr (JStr s) \<Rightarrow>
          (case csv_rows w s of
             Inl e \<Rightarrow> Inl e
           | Inr rows \<Rightarrow>
               (case map_exn region_row rows of
                  Inl e \<Rightarrow> Inl e
                | Inr data \<Rightarrow>
                    (case py_get response ''status_code'' (JInt 200) of
                       Inl e \<Rightarrow> Inl e
                     | Inr sc \<Rightarrow> Inr (JObj [(''result'', JList data), (''status_code'', sc)]))))
      | Inr v \<Rightarrow> Inl (AttributeError ([CHR 0x27] @ type_name v @ [CHR 0x27] @ '' object has no attribute '' @ [CHR 0x27] @ ''splitlines'' @ [CHR 0x27])))"

definition TopvisorAPI_get_project_regions :: "world \<Rightarrow> topvisor_api \<Rightarrow> int \<Rightarrow> json act" where
  "TopvisorAPI_get_project_regions w self project_id =
     bnd (TopvisorAPI_make_request w self ''positions_2/searchers_regions/export''
            (Some (JObj [(''project_id'', JInt project_id)])) True)
         (\<lambda>response. lift (regions_of_response w response))"

definition TopvisorAPI_get_keyword_folders :: "world \<Rightarrow> topvisor_api \<Rightarrow> int \<Rightarrow> json act" where
  "TopvisorAPI_get_keyword_folders w self project_id =
     TopvisorAPI_make_request w self ''keywords_2/folders''
       (Some (JObj [(''project_id'', JInt project_id)])) False"

definition TopvisorAPI_get_keyword_groups ::
    "world \<Rightarrow> topvisor_api \<Rightarrow> int \<Rightarrow> int option \<Rightarrow> json act" where
  "TopvisorAPI_get_keyword_groups w self project_id folder_id =
     (let payload = [(''project_id'', JInt project_id)];
          payload = (if opt_int_truthy folder_id then dict_set payload ''folder_id'' (opt_int folder_id) else payload)
      in TopvisorAPI_make_request w self ''keywords_2/groups'' (Some (JObj payload)) False)"

definition TopvisorAPI_get_balance_info :: "world \<Rightarrow> topvisor_api \<Rightarrow> json act" where
  "TopvisorAPI_get_balance_info w self =
     TopvisorAPI_make_request w self ''bank_2/info'' (Some (JObj [])) False"

section \<open>The Ahrefs client (src/logic/ahrefs.py)\<close>

record ahrefs_api =
  ah_api_key :: string
  ah_base_url :: string
  ah_headers :: "(string \<times> json) list"

definition AhrefsAPI_init :: "string option \<Rightarrow> ahrefs_api act" where
  "AhrefsAPI_init api_key =
     (case api_key of
        None \<Rightarrow> lift (Inl (ValueError ''API key Ahrefs not found! Please set AHREFS_API_KEY environment variable.''))
      | Some key \<Rightarrow>
          if key = [] then lift (Inl (ValueError ''API key Ahrefs not found! Please set AHREFS_API_KEY environment variable.''))
          else ret \<lparr> ah_api_key = key, ah_base_url = ''https://api.ahrefs.com/v3'',
                     ah_headers = [(''Content-Type'', JStr ''application/json''),
                                   (''Authorization'', JStr (''Bearer '' @ key))] \<rparr>)"

definition AhrefsAPI_classify :: "outcome \<Rightarrow> json" where
  "AhrefsAPI_classify out =
     (case out of
        Response r \<Rightarrow>
          if status_code r = 200 then
            (case json_body r of
               Inr d \<Rightarrow> d
             | Inl e \<Rightarrow> JObj [(''error'', JStr (''Unexpected error: '' @ str_exn e))])
          else if status_code r = 401 then
            JObj [(''error'', JStr ''Invalid API key''), (''status_code'', JInt 401)]
          else if status_code r = 403 then
            JObj [(''error'', JStr ''Insufficient access permissions or credits''), (''status_code'', JInt 403)]
          else if status_code r = 429 then
            JObj [(''error'', JStr ''Request limit exceeded''), (''status_code'', JInt 429)]
          else
            JObj [(''error'', JStr (''API error '' @ str_int (status_code r))),
                  (''details'', JStr (text_body r))]
      | ConnectionFailed \<Rightarrow> JObj [(''error'', JStr ''No internet connection or API unavailable'')]
      | Failure e \<Rightarrow> JObj [(''error'', JStr (''Unexpected error: '' @ str_exn e))])"

definition AhrefsAPI_request :: "ahrefs_api \<Rightarrow> string \<Rightarrow> json option \<Rightarrow> request" where
  "AhrefsAPI_request self endpoint params =
     \<lparr> req_method = GET, req_url = ah_base_url self @ ''/'' @ endpoint,
       req_headers = ah_headers self, req_data = params, req_timeout = 60 \<rparr>"

definition AhrefsAPI_make_request :: "world \<Rightarrow> ahrefs_api \<Rightarrow> string \<Rightarrow> json option \<Rightarrow> json act" where
  "AhrefsAPI_make_request w self endpoint params =
     (\<lambda>log. let req = AhrefsAPI_request self endpoint params
            in (Inr (AhrefsAPI_classify (transport w req)), log @ [req]))"

definition refdomains_select :: string where
  "refdomains_select = ''domain,domain_rating,links_to_target,first_seen,last_seen,traffic_domain''"

definition backlinks_select :: string where
  "backlinks_select = ''url_from,url_to,domain_rating_source,domain_rating_target,traffic,traffic_domain,anchor,name_source,name_target,noindex,page_size,positions,title,url_from,url_rating_source,url_to''"

definition organic_select :: string where
  "organic_select = ''keyword,best_position,best_position_url,keyword_country,keyword_difficulty,last_update,sum_traffic,volume,volume_desktop_pct,volume_mobile_pct''"

definition AhrefsAPI_get_refdomains ::
    "world \<Rightarrow> ahrefs_api \<Rightarrow> string \<Rightarrow> int \<Rightarrow> string \<Rightarrow> json act" where
  "AhrefsAPI_get_refdomains w self target limit order_by =
     AhrefsAPI_make_request w self ''site-explorer/refdomains''
       (Some (JObj [(''target'', JStr target), (''limit'', JInt limit),
                    (''order_by'', JStr order_by), (''select'', JStr refdomains_select)]))"

definition AhrefsAPI_get_backlinks ::
    "world \<Rightarrow> ahrefs_api \<Rightarrow> string \<Rightarrow> int \<Rightarrow> string \<Rightarrow> json act" where
  "AhrefsAPI_get_backlinks w self target limit order_by =
     AhrefsAPI_make_request w self ''site-explorer/all-backlinks''
       (Some (JObj [(''target'', JStr target), (''limit'', JInt limit),
                    (''order_by'', JStr order_by), (''select'', JStr backlinks_select)]))"

definition AhrefsAPI_get_organic_keywords ::
    "world \<Rightarrow> ahrefs_api \<Rightarrow> string \<Rightarrow> int \<Rightarrow> string option \<Rightarrow> string \<Rightarrow> json act" where
  "AhrefsAPI_get_organic_keywords w self target limit date order_by =
     (let d = (case date of None \<Rightarrow> today w | Some d \<Rightarrow> d)
      in AhrefsAPI_make_request w self ''site-explorer/organic-keywords''
           (Some (JObj [(''target'', JStr target), (''limit'', JInt limit), (''date'', JStr d),
                        (''order_by'', JStr order_by), (''select'', JStr organic_select)])))"

text \<open>Every public method of the two clients, as one call.\<close>

datatype client_call =
    Tv_get_projects
  | Tv_get_project_keywords int "int option" "int option"
  | Tv_get_project_positions int json "string option" "string option" int int
  | Tv_get_positions_summary int "string option" "string option"
  | Tv_get_project_competitors int
  | Tv_get_project_regions int
  | Tv_get_keyword_folders int
  | Tv_get_keyword_groups int "int option"
  | Tv_get_balance_info
  | Ah_get_refdomains string int string
  | Ah_get_backlinks string int string
  | Ah_get_organic_keywords string int "string option" string

fun client_method :: "world \<Rightarrow> topvisor_api \<Rightarrow> ahrefs_api \<Rightarrow> client_call \<Rightarrow> json act" where
  "client_method w tv ah Tv_get_projects = TopvisorAPI_get_projects w tv"
| "client_method w tv ah (Tv_get_project_keywords p f g) = TopvisorAPI_get_project_keywords w tv p f g"
| "client_method w tv ah (Tv_get_project_positions p r d1 d2 l off) = TopvisorAPI_get_project_positions w tv p r d1 d2 l off"
| "client_method w tv ah (Tv_get_positions_summary p d1 d2) = TopvisorAPI_get_positions_summary w tv p d1 d2"
| "client_method w tv ah (Tv_get_project_competitors p) = TopvisorAPI_get_project_competitors w tv p"
| "client_method w tv ah (Tv_get_project_regions p) = TopvisorAPI_get_project_regions w tv p"
| "client_method w tv ah (Tv_get_keyword_folders p) = TopvisorAPI_get_keyword_folders w tv p"
| "client_method w tv ah (Tv_get_keyword_groups p f) = TopvisorAPI_get_keyword_groups w tv p f"
| "client_method w tv ah Tv_get_balance_info = TopvisorAPI_get_balance_info w tv"
| "client_method w tv ah (Ah_get_refdomains t l ob) = AhrefsAPI_get_refdomains w ah t l ob"
| "client_method w tv ah (Ah_get_backlinks t l ob) = AhrefsAPI_get_backlinks w ah t l ob"
| "client_method w tv ah (Ah_get_organic_keywords t l d ob) = AhrefsAPI_get_organic_keywords w ah t l d ob"

section \<open>Helpers of the tool functions\<close>

definition sbind :: "exn + 'a \<Rightarrow> ('a \<Rightarrow> exn + 'b) \<Rightarrow> exn + 'b" where
  "sbind r f = (case r of Inl e \<Rightarrow> Inl e | Inr x \<Rightarrow> f x)"

text \<open>\<^verbatim>\<open>result and k in result\<close>, as a condition: a falsy \<open>result\<close> short-circuits.\<close>

definition and_in :: "json \<Rightarrow> string \<Rightarrow> exn + bool" where
  "and_in result k = (if truthy result then py_in k result else Inr False)"

text \<open>\<^verbatim>\<open>isinstance(result, dict) and k in result\<close>\<close>

definition dict_and_in :: "json \<Rightarrow> string \<Rightarrow> bool" where
  "dict_and_in result k = (is_dict result \<and> has_key result k)"

text \<open>A value inside an f-string: a string stands for itself, anything else goes through
  \<^verbatim>\<open>str\<close>.\<close>

definition fmt :: "world \<Rightarrow> json \<Rightarrow> string" where
  "fmt w v = (case v of JStr s \<Rightarrow> s | _ \<Rightarrow> py_str w v)"

text \<open>\<^verbatim>\<open>str(result)[:500] if result else "None"\<close>\<close>

definition raw_result :: "world \<Rightarrow> json \<Rightarrow> json" where
  "raw_result w result = (if truthy result then JStr (take 500 (py_str w result)) else JStr ''None'')"

text \<open>The dictionary \<^verbatim>\<open>{out: item.get(key, default), ...}\<close> built from one item of a
  provider list: the field whitelist of an endpoint.\<close>

definition item_fields :: "(string \<times> string \<times> json) list \<Rightarrow> json \<Rightarrow> exn + json" where
  "item_fields whitelist item =
     sbind (map_exn (\<lambda>(out, key, dflt). sbind (py_get item key dflt) (\<lambda>v. Inr (out, v))) whitelist)
       (\<lambda>kvs. Inr (JObj kvs))"

text \<open>\<^verbatim>\<open>for item in items: info = {...}; infos.append(info)\<close>\<close>

definition items_fields :: "(string \<times> string \<times> json) list \<Rightarrow> json \<Rightarrow> exn + json list" where
  "items_fields whitelist items = sbind (py_iter items) (map_exn (item_fields whitelist))"

definition error_envelope :: "string \<Rightarrow> (string \<times> json) list \<Rightarrow> json" where
  "error_envelope message extra = JObj ([(''status'', JStr ''error''), (''message'', JStr message)] @ extra)"

text \<open>A block that cannot raise, inside a \<^verbatim>\<open>try\<close>.\<close>

definition total :: "(request list \<Rightarrow> 'a \<times> request list) \<Rightarrow> 'a act" where
  "total f = (\<lambda>log. case f log of (x, log') \<Rightarrow> (Inr x, log'))"

text \<open>\<^verbatim>\<open>TopvisorAPI()\<close> and \<^verbatim>\<open>AhrefsAPI()\<close>: the default arguments are the environment
  variables.  Python reads them once, when the module of the client is imported; the
  setup checks read the key again when they are called.  The model has one environment
  for both readings.\<close>

definition TopvisorAPI_default :: "world \<Rightarrow> topvisor_api act" where
  "TopvisorAPI_default w = TopvisorAPI_init (env_TOPVISOR_USER_ID w) (env_TOPVISOR_API_KEY w)"

definition AhrefsAPI_default :: "world \<Rightarrow> ahrefs_api act" where
  "AhrefsAPI_default w = AhrefsAPI_init (env_AHREFS_API_KEY w)"

definition opt_truthy :: "string option \<Rightarrow> bool" where
  "opt_truthy s = (case s of None \<Rightarrow> False | Some t \<Rightarrow> t \<noteq> [])"

section \<open>The Topvisor tools (src/tools/topvisor.py)\<close>

subsection \<open>check_topvisor_setup\<close>

definition setup_checks :: "bool \<Rightarrow> bool \<Rightarrow> bool \<Rightarrow> json" where
  "setup_checks env_file key_set conn =
     JObj [(''env_file'', JBool env_file), (''api_key_set'', JBool key_set), (''api_connection'', JBool conn)]"

text \<open>The balance shown by the setup check: from a dictionary, or from the first element
  of a non-empty list when that is a dictionary, else \<^verbatim>\<open>"N/A"\<close>.\<close>

definition setup_balance :: "json \<Rightarrow> json" where
  "setup_balance result_data =
     (case result_data of
        JObj kvs \<Rightarrow> (case dict_get kvs ''balance'' of Some v \<Rightarrow> v | None \<Rightarrow> JStr ''N/A'')
      | JList (JObj kvs # rest) \<Rightarrow> (case dict_get kvs ''balance'' of Some v \<Rightarrow> v | None \<Rightarrow> JStr ''N/A'')
      | _ \<Rightarrow> JStr ''N/A'')"

definition check_topvisor_result :: "world \<Rightarrow> json \<Rightarrow> exn + json" where
  "check_topvisor_result w result =
     sbind (and_in result ''error'') (\<lambda>has_error.
       if has_error then
         sbind (py_getitem result ''error'') (\<lambda>err.
           Inr (JObj [(''status'', JStr ''warning''),
                      (''message'', JStr (''API key found, but there is a problem: '' @ fmt w err)),
                      (''checks'', setup_checks True True False),
                      (''help'', JStr ''Check API key validity and account balance'')]))
       else
         sbind (and_in result ''result'') (\<lambda>has_result.
           if has_result then
             sbind (py_getitem result ''result'') (\<lambda>result_data.
               let balance = setup_balance result_data in
               Inr (JObj [(''status'', JStr ''success''),
                          (''message'', JStr (''Everything is set up correctly! Balance: '' @ fmt w balance)),
                          (''checks'', setup_checks True True True),
                          (''balance'', balance),
                          (''result_type'', JStr (type_name result_data)),
                          (''raw_result'',
                             (if length (py_str w result_data) < 500 then result_data
                              else JStr (take 500 (py_str w result_data) @ ''...'')))]))
           else
             Inr (error_envelope ''Unexpected response from API''
                    [(''checks'', setup_checks True True False)])))"

definition check_topvisor_api_error :: "world \<Rightarrow> exn \<Rightarrow> json" where
  "check_topvisor_api_error w api_error =
     (let error_details = [(''error_type'', JStr (type_name_exn api_error)),
                           (''error_message'', JStr (str_exn api_error))];
          error_details =
            (if is_AttributeError api_error then
               dict_set (dict_set error_details ''likely_cause'' (JStr ''Unexpected data format from API''))
                 ''suggestion'' (JStr ''API returned data in unexpected format'')
             else error_details)
      in error_envelope (''API connection error: '' @ str_exn api_error)
           [(''checks'', setup_checks (dotenv_exists w) (opt_truthy (env_TOPVISOR_API_KEY w)) False),
            (''error_details'', JObj error_details),
            (''help'', JStr ''Check internet connection and API key validity'')])"

definition check_topvisor_setup :: "world \<Rightarrow> request list \<Rightarrow> json \<times> request list" where
  "check_topvisor_setup w =
     try_except
       (if \<not> opt_truthy (env_TOPVISOR_API_KEY w) then
          ret (error_envelope ''API key not found''
                 [(''checks'', setup_checks (dotenv_exists w) False False),
                  (''help'', JStr ''Create .env file and add TOPVISOR_API_KEY=your_key'')])
        else
          total (try_except
                   (bnd (TopvisorAPI_default w) (\<lambda>topvisor.
                    bnd (TopvisorAPI_get_balance_info w topvisor) (\<lambda>result.
                      lift (check_topvisor_result w result))))
                   (check_topvisor_api_error w)))
       (\<lambda>e. error_envelope (''Setup check error: '' @ str_exn e)
                [(''help'', JStr ''See TOPVISOR_SETUP.md file for instructions'')])"

subsection \<open>get_topvisor_projects\<close>

text \<open>The branch on the provider's dictionary (lines 159--196): \<^verbatim>\<open>"error"\<close> first, then
  \<^verbatim>\<open>"result"\<close>, else the failure message.\<close>

definition projects_of_result :: "world \<Rightarrow> json \<Rightarrow> exn + json" where
  "projects_of_result w result =
     sbind (and_in result ''error'') (\<lambda>has_error.
       if has_error then
         sbind (py_getitem result ''error'') (\<lambda>err.
         sbind (py_get result ''details'' (JStr ''Check TOPVISOR_SETUP.md file for setup'')) (\<lambda>details.
           Inr (error_envelope (''API error: '' @ fmt w err) [(''details'', details)])))
       else
         sbind (and_in result ''result'') (\<lambda>has_result.
           if has_result then
             sbind (py_getitem result ''result'') (\<lambda>projects.
             sbind (items_fields [(''id'', ''id'', JNull), (''name'', ''name'', JNull),
                                  (''url'', ''url'', JNull), (''status'', ''status'', JNull),
                                  (''created'', ''date_add'', JNull)] projects) (\<lambda>project_info.
               Inr (JObj [(''status'', JStr ''success''),
                          (''projects'', JList project_info),
                          (''total_count'', JInt (int (length project_info)))])))
           else
             Inr (error_envelope ''Failed to get project data''
                    [(''help'', JStr ''Check TOPVISOR_SETUP.md file for API key setup'')])))"

definition get_topvisor_projects :: "world \<Rightarrow> request list \<Rightarrow> json \<times> request list" where
  "get_topvisor_projects w =
     try_except
       (bnd (TopvisorAPI_default w) (\<lambda>topvisor.
        bnd (TopvisorAPI_get_projects w topvisor) (\<lambda>result.
          lift (projects_of_result w result))))
       (\<lambda>e. error_envelope (''Error getting projects: '' @ str_exn e)
                [(''help'', JStr ''Create .env file with TOPVISOR_API_KEY. See TOPVISOR_SETUP.md'')])"

subsection \<open>get_topvisor_keywords\<close>

definition keywords_of_result :: "int \<Rightarrow> json \<Rightarrow> exn + json" where
  "keywords_of_result project_id result =
     sbind (and_in result ''result'') (\<lambda>has_result.
       if has_result then
         sbind (py_getitem result ''result'') (\<lambda>keywords.
         sbind (items_fields [(''id'', ''id'', JNull), (''name'', ''name'', JNull),
                              (''folder_id'', ''folder_id'', JNull), (''group_id'', ''group_id'', JNull),
                              (''url'', ''url'', JNull), (''tags'', ''tags'', JList [])] keywords) (\<lambda>keywords_info.
           Inr (JObj [(''status'', JStr ''success''),
                      (''project_id'', JInt project_id),
                      (''keywords'', JList keywords_info),
                      (''total_count'', JInt (int (length keywords_info)))])))
       else Inr (error_envelope ''Failed to get keyword data'' []))"

definition get_topvisor_keywords ::
    "world \<Rightarrow> int \<Rightarrow> int option \<Rightarrow> int option \<Rightarrow> request list \<Rightarrow> json \<times> request list" where
  "get_topvisor_keywords w project_id folder_id group_id =
     try_except
       (bnd (TopvisorAPI_default w) (\<lambda>topvisor.
        bnd (TopvisorAPI_get_project_keywords w topvisor project_id folder_id group_id) (\<lambda>result.
          lift (keywords_of_result project_id result))))
       (\<lambda>e. error_envelope (''Error getting keywords: '' @ str_exn e) [])"

subsection \<open>get_topvisor_positions_history\<close>

text \<open>\<^verbatim>\<open>s.split(":")\<close>: every occurrence of the separator cuts, empty pieces are kept.\<close>

fun split_on :: "char \<Rightarrow> string \<Rightarrow> string list" where
  "split_on sep [] = [[]]"
| "split_on sep (c # cs) =
     (if c = sep then [] # split_on sep cs
      else (case split_on sep cs of p # ps \<Rightarrow> (c # p) # ps | [] \<Rightarrow> [[c]]))"

text \<open>\<^verbatim>\<open>str.isdigit()\<close> on code points below 256: the ten decimal digits and the
  superscripts one, two and three count as digits; the empty string does not.\<close>

definition is_decimal_char :: "char \<Rightarrow> bool" where
  "is_decimal_char c = (48 \<le> (of_char c :: nat) \<and> (of_char c :: nat) \<le> 57)"

definition is_digit_char :: "char \<Rightarrow> bool" where
  "is_digit_char c = (is_decimal_char c \<or> (of_char c :: nat) \<in> {178, 179, 185})"

definition isdigit :: "string \<Rightarrow> bool" where
  "isdigit s = (s \<noteq> [] \<and> list_all is_digit_char s)"

text \<open>\<^verbatim>\<open>int(s)\<close> on a string that passed \<^verbatim>\<open>isdigit()\<close>: the decimal value, a
  \<^verbatim>\<open>ValueError\<close> when a character is a digit that is not decimal.  The interpreter's
  optional limit on the length of such a string is not part of the model.\<close>

definition decimal_value :: "string \<Rightarrow> int" where
  "decimal_value s = foldl (\<lambda>acc c. 10 * acc + (int (of_char c) - 48)) 0 s"

definition int_of_digits :: "string \<Rightarrow> exn + int" where
  "int_of_digits s =
     (if s \<noteq> [] \<and> list_all is_decimal_char s then Inr (decimal_value s)
      else Inl (ValueError (''invalid literal for int() with base 10: '' @ [CHR 0x27] @ s @ [CHR 0x27])))"

text \<open>\<^verbatim>\<open>int(position_value) if position_value.isdigit() else None\<close>\<close>

definition position_numeric_of :: "json \<Rightarrow> exn + json" where
  "position_numeric_of position_value =
     (case position_value of
        JStr s \<Rightarrow> (if isdigit s then sbind (int_of_digits s) (\<lambda>i. Inr (JInt i)) else Inr JNull)
      | v \<Rightarrow> Inl (AttributeError ([CHR 0x27] @ type_name v @ [CHR 0x27] @ '' object has no attribute '' @ [CHR 0x27] @ ''isdigit'' @ [CHR 0x27])))"

text \<open>One element of \<^verbatim>\<open>positions_info\<close>; \<open>row_json\<close> is the dictionary the source appends,
  with its keys in the source's order.\<close>

record position_row =
  row_keyword_name :: json
  row_date :: string
  row_position :: json
  row_project_id :: string
  row_region :: string
  row_position_numeric :: json
  row_is_not_ranking :: bool

definition row_json :: "position_row \<Rightarrow> json" where
  "row_json r =
     JObj [(''keyword_name'', row_keyword_name r), (''date'', JStr (row_date r)),
           (''position'', row_position r), (''project_id'', JStr (row_project_id r)),
           (''region'', JStr (row_region r)), (''position_numeric'', row_position_numeric r),
           (''is_not_ranking'', JBool (row_is_not_ranking r))]"

text \<open>The body of the inner loop (lines 419--453) for one item of \<^verbatim>\<open>positionsData\<close>:
  \<open>None\<close> when nothing is appended.\<close>

definition position_record :: "json \<Rightarrow> string \<Rightarrow> json \<Rightarrow> exn + position_row option" where
  "position_record keyword_name date_key position_info =
     (if dict_and_in position_info ''position'' then
        (let parts = split_on (CHR '':'') date_key in
         if length parts \<ge> 3 then
           sbind (py_getitem position_info ''position'') (\<lambda>position_value.
           sbind (position_numeric_of position_value) (\<lambda>numeric.
             Inr (Some \<lparr> row_keyword_name = keyword_name, row_date = parts ! 0,
                         row_position = position_value, row_project_id = parts ! 1,
                         row_region = parts ! 2, row_position_numeric = numeric,
                         row_is_not_ranking = (position_value = JStr ''--'') \<rparr>)))
         else Inr None)
      else Inr None)"

text \<open>\<^verbatim>\<open>d.items()\<close>\<close>

fun py_items :: "json \<Rightarrow> exn + (string \<times> json) list" where
  "py_items (JObj kvs) = Inr kvs"
| "py_items j = Inl (AttributeError ([CHR 0x27] @ type_name j @ [CHR 0x27] @ '' object has no attribute '' @ [CHR 0x27] @ ''items'' @ [CHR 0x27]))"

fun option_list :: "'a option \<Rightarrow> 'a list" where
  "option_list None = []"
| "option_list (Some x) = [x]"

text \<open>The body of the outer loop for one element of \<^verbatim>\<open>keywords\<close>.\<close>

definition keyword_rows :: "json \<Rightarrow> exn + position_row list" where
  "keyword_rows keyword_data =
     (if is_dict keyword_data then
        sbind (py_get keyword_data ''name'' (JStr ''unknown'')) (\<lambda>keyword_name.
        sbind (py_get keyword_data ''positionsData'' (JObj [])) (\<lambda>positions_data.
        sbind (py_items positions_data) (\<lambda>items.
        sbind (map_exn (\<lambda>(date_key, position_info). position_record keyword_name date_key position_info) items)
          (\<lambda>rows. Inr (concat (map option_list rows))))))
      else Inr [])"

text \<open>\<^verbatim>\<open>len(x) if hasattr(x, "__len__") else "no_length"\<close>\<close>

definition len_or_no_length :: "json \<Rightarrow> json" where
  "len_or_no_length v = (case py_len v of Inr n \<Rightarrow> JInt (int n) | Inl e \<Rightarrow> JStr ''no_length'')"

text \<open>\<^verbatim>\<open>list(x.keys()) if isinstance(x, dict) else "not_dict"\<close>\<close>

definition keys_or_not_dict :: "json \<Rightarrow> json" where
  "keys_or_not_dict v = (case v of JObj kvs \<Rightarrow> JList (map (\<lambda>kv. JStr (fst kv)) kvs) | _ \<Rightarrow> JStr ''not_dict'')"

definition debug_info_of ::
    "int \<Rightarrow> json \<Rightarrow> string option \<Rightarrow> string option \<Rightarrow> int \<Rightarrow> int \<Rightarrow> json \<Rightarrow> (string \<times> json) list" where
  "debug_info_of project_id regions_indexes date1 date2 limit offset result =
     [(''sent_params'',
         JObj [(''project_id'', JInt project_id), (''regions_indexes'', regions_indexes),
               (''date1'', opt_str date1), (''date2'', opt_str date2),
               (''limit'', JInt limit), (''offset'', JInt offset)]),
      (''api_response_type'', JStr (type_name result)),
      (''api_response_keys'', keys_or_not_dict result),
      (''api_response_summary'',
         JObj [(''has_result_key'', JBool (dict_and_in result ''result'')),
               (''has_error_key'', JBool (dict_and_in result ''error'')),
               (''result_type'',
                  (case py_getitem result ''result'' of
                     Inr v \<Rightarrow> JStr (type_name v) | Inl e \<Rightarrow> JStr ''no_result'')),
               (''result_length'',
                  (case py_getitem result ''result'' of
                     Inr v \<Rightarrow> len_or_no_length v | Inl e \<Rightarrow> JStr ''no_length''))])]"

text \<open>\<^verbatim>\<open>len(set(values))\<close>: a list or a dictionary cannot be hashed; numbers and booleans
  of equal value are one element (\<^verbatim>\<open>True == 1 == 1.0\<close>); the one NaN object of the JSON
  decoder is one element.\<close>

definition hashable :: "json \<Rightarrow> bool" where
  "hashable v = (case v of JList xs \<Rightarrow> False | JObj kvs \<Rightarrow> False | _ \<Rightarrow> True)"

definition num_value :: "json \<Rightarrow> (int \<times> nat) option" where
  "num_value v =
     (case v of
        JBool b \<Rightarrow> Some (if b then 1 else 0, 0)
      | JInt i \<Rightarrow> Some (i, 0)
      | JFloat (Finite m k) \<Rightarrow> Some (m, k)
      | _ \<Rightarrow> None)"

definition py_eq :: "json \<Rightarrow> json \<Rightarrow> bool" where
  "py_eq a b =
     (case (num_value a, num_value b) of
        (Some (m, k), Some (m', k')) \<Rightarrow> m * 2 ^ k' = m' * 2 ^ k
      | (None, None) \<Rightarrow> a = b
      | _ \<Rightarrow> False)"

fun set_size :: "json list \<Rightarrow> json list \<Rightarrow> exn + nat" where
  "set_size seen [] = Inr (length seen)"
| "set_size seen (x # xs) =
     (if \<not> hashable x then Inl (TypeError (''unhashable type: '' @ [CHR 0x27] @ type_name x @ [CHR 0x27]))
      else if list_ex (py_eq x) seen then set_size seen xs
      else set_size (seen @ [x]) xs)"

text \<open>\<^verbatim>\<open>min(dates, default="no_data")\<close> and \<^verbatim>\<open>max\<close>, on strings in code point order.\<close>

definition min_date :: "string list \<Rightarrow> string" where
  "min_date ds = (case ds of [] \<Rightarrow> ''no_data'' | d # rest \<Rightarrow> fold min rest d)"

definition max_date :: "string list \<Rightarrow> string" where
  "max_date ds = (case ds of [] \<Rightarrow> ''no_data'' | d # rest \<Rightarrow> fold max rest d)"

text \<open>The rows and the \<^verbatim>\<open>positions_details\<close> of the debug block, from \<^verbatim>\<open>result["result"]\<close>.\<close>

definition rows_of_result_data :: "json \<Rightarrow> exn + position_row list \<times> (string \<times> json) list" where
  "rows_of_result_data result_data =
     (let details = [(''result_data_type'', JStr (type_name result_data)),
                     (''result_data_keys'', keys_or_not_dict result_data),
                     (''has_keywords_key'', JBool (dict_and_in result_data ''keywords''))]
      in if dict_and_in result_data ''keywords'' then
           sbind (py_getitem result_data ''keywords'') (\<lambda>keywords.
           sbind (py_iter keywords) (\<lambda>keyword_list.
           sbind (map_exn keyword_rows keyword_list) (\<lambda>rows.
             Inr (concat rows, dict_set details ''keywords_count'' (len_or_no_length keywords)))))
         else Inr ([], details))"

definition positions_of_result ::
    "world \<Rightarrow> int \<Rightarrow> json \<Rightarrow> string option \<Rightarrow> string option \<Rightarrow> int \<Rightarrow> int \<Rightarrow> json \<Rightarrow> exn + json" where
  "positions_of_result w project_id regions_indexes date1 date2 limit offset result =
     (let debug_info = debug_info_of project_id regions_indexes date1 date2 limit offset result in
      if \<not> truthy result then
        Inr (error_envelope ''Empty response from API'' [(''debug'', JObj debug_info)])
      else if dict_and_in result ''error'' then
        sbind (py_getitem result ''error'') (\<lambda>err.
          Inr (error_envelope (''API error: '' @ fmt w err) [(''debug'', JObj debug_info)]))
      else if dict_and_in result ''result'' then
        sbind (py_getitem result ''result'') (\<lambda>result_data.
          if result_data = JNull then
            Inr (error_envelope ''API returned result=None (no position data for specified period)''
                   [(''debug'', JObj (dict_set debug_info ''positions_details''
                      (JObj [(''result_data_type'', JStr ''NoneType''),
                             (''result_data_value'', JNull),
                             (''reason'', JStr ''API returned result=None, likely no position data for specified period'')])))])
          else
            sbind (rows_of_result_data result_data) (\<lambda>(positions_info, details).
            sbind (set_size [] (map row_keyword_name positions_info)) (\<lambda>unique_keywords.
              Inr (JObj [(''status'', JStr ''success''),
                         (''project_id'', JInt project_id),
                         (''regions_indexes'', regions_indexes),
                         (''period'', JStr (str_or date1 ''auto'' @ '' - '' @ str_or date2 ''auto'')),
                         (''positions'', JList (map row_json positions_info)),
                         (''total_count'', JInt (int (length positions_info))),
                         (''unique_keywords'', JInt (int unique_keywords)),
                         (''date_range'',
                            JObj [(''start'', JStr (min_date (map row_date positions_info))),
                                  (''end'', JStr (max_date (map row_date positions_info)))]),
                         (''limit'', JInt limit),
                         (''offset'', JInt offset),
                         (''debug'', JObj (dict_set debug_info ''positions_details'' (JObj details)))]))))
      else
        Inr (error_envelope ''Failed to get position data'' [(''debug'', JObj debug_info)]))"

definition get_topvisor_positions_history ::
    "world \<Rightarrow> int \<Rightarrow> json \<Rightarrow> string option \<Rightarrow> string option \<Rightarrow> int \<Rightarrow> int \<Rightarrow>
       request list \<Rightarrow> json \<times> request list" where
  "get_topvisor_positions_history w project_id regions_indexes date1 date2 limit offset =
     try_except
       (bnd (TopvisorAPI_default w) (\<lambda>topvisor.
        bnd (TopvisorAPI_get_project_positions w topvisor project_id regions_indexes date1 date2 limit offset)
          (\<lambda>result. lift (positions_of_result w project_id regions_indexes date1 date2 limit offset result))))
       (\<lambda>e. error_envelope (''Error getting positions: '' @ str_exn e)
                [(''error_type'', JStr (type_name_exn e)), (''error_details'', JStr (str_exn e))])"

subsection \<open>The other Topvisor tools\<close>

definition summary_of_result :: "int \<Rightarrow> string option \<Rightarrow> string option \<Rightarrow> json \<Rightarrow> exn + json" where
  "summary_of_result project_id date1 date2 result =
     sbind (and_in result ''result'') (\<lambda>has_result.
       if has_result then
         sbind (py_getitem result ''result'') (\<lambda>summary.
           Inr (JObj [(''status'', JStr ''success''),
                      (''project_id'', JInt project_id),
                      (''period'', JStr (str_or date1 ''auto'' @ '' - '' @ str_or date2 ''auto'')),
                      (''summary'', summary)]))
       else Inr (error_envelope ''Failed to get position summary'' []))"

definition get_topvisor_positions_summary ::
    "world \<Rightarrow> int \<Rightarrow> string option \<Rightarrow> string option \<Rightarrow> request list \<Rightarrow> json \<times> request list" where
  "get_topvisor_positions_summary w project_id date1 date2 =
     try_except
       (bnd (TopvisorAPI_default w) (\<lambda>topvisor.
        bnd (TopvisorAPI_get_positions_summary w topvisor project_id date1 date2) (\<lambda>result.
          lift (summary_of_result project_id date1 date2 result))))
       (\<lambda>e. error_envelope (''Error getting summary: '' @ str_exn e) [])"

definition competitors_of_result :: "int \<Rightarrow> json \<Rightarrow> exn + json" where
  "competitors_of_result project_id result =
     sbind (and_in result ''result'') (\<lambda>has_result.
       if has_result then
         sbind (py_getitem result ''result'') (\<lambda>competitors.
         sbind (items_fields [(''id'', ''id'', JNull), (''name'', ''name'', JNull),
                              (''url'', ''url'', JNull), (''status'', ''on'', JNull),
                              (''enabled'', ''enabled'', JNull)] competitors) (\<lambda>competitors_info.
           Inr (JObj [(''status'', JStr ''success''),
                      (''project_id'', JInt project_id),
                      (''competitors'', JList competitors_info),
                      (''total_count'', JInt (int (length competitors_info)))])))
       else Inr (error_envelope ''Failed to get competitor data'' []))"

definition get_topvisor_competitors :: "world \<Rightarrow> int \<Rightarrow> request list \<Rightarrow> json \<times> request list" where
  "get_topvisor_competitors w project_id =
     try_except
       (bnd (TopvisorAPI_default w) (\<lambda>topvisor.
        bnd (TopvisorAPI_get_project_competitors w topvisor project_id) (\<lambda>result.
          lift (competitors_of_result project_id result))))
       (\<lambda>e. error_envelope (''Error getting competitors: '' @ str_exn e) [])"

definition regions_of_result :: "int \<Rightarrow> json \<Rightarrow> exn + json" where
  "regions_of_result project_id result =
     sbind (and_in result ''result'') (\<lambda>has_result.
       if has_result then
         sbind (py_getitem result ''result'') (\<lambda>regions.
         sbind (py_len regions) (\<lambda>n.
           Inr (JObj [(''status'', JStr ''success''),
                      (''project_id'', JInt project_id),
                      (''regions'', regions),
                      (''total_count'', JInt (int n))])))
       else Inr (error_envelope ''Failed to get region data'' []))"

definition get_topvisor_regions :: "world \<Rightarrow> int \<Rightarrow> request list \<Rightarrow> json \<times> request list" where
  "get_topvisor_regions w project_id =
     try_except
       (bnd (TopvisorAPI_default w) (\<lambda>topvisor.
        bnd (TopvisorAPI_get_project_regions w topvisor project_id) (\<lambda>result.
          lift (regions_of_result project_id result))))
       (\<lambda>e. error_envelope (''Error getting regions: '' @ str_exn e) [])"

definition folders_of_result :: "int \<Rightarrow> json \<Rightarrow> exn + json" where
  "folders_of_result project_id result =
     sbind (and_in result ''result'') (\<lambda>has_result.
       if has_result then
         sbind (py_getitem result ''result'') (\<lambda>folders.
         sbind (items_fields [(''id'', ''id'', JNull), (''name'', ''name'', JNull),
                              (''parent_id'', ''parent_id'', JNull),
                              (''keywords_count'', ''count_keywords'', JNull)] folders) (\<lambda>folders_info.
           Inr (JObj [(''status'', JStr ''success''),
                      (''project_id'', JInt project_id),
                      (''folders'', JList folders_info),
                      (''total_count'', JInt (int (length folders_info)))])))
       else Inr (error_envelope ''Failed to get folder data'' []))"

definition get_topvisor_keyword_folders :: "world \<Rightarrow> int \<Rightarrow> request list \<Rightarrow> json \<times> request list" where
  "get_topvisor_keyword_folders w project_id =
     try_except
       (bnd (TopvisorAPI_default w) (\<lambda>topvisor.
        bnd (TopvisorAPI_get_keyword_folders w topvisor project_id) (\<lambda>result.
          lift (folders_of_result project_id result))))
       (\<lambda>e. error_envelope (''Error getting folders: '' @ str_exn e) [])"

definition groups_of_result :: "int \<Rightarrow> int option \<Rightarrow> json \<Rightarrow> exn + json" where
  "groups_of_result project_id folder_id result =
     sbind (and_in result ''result'') (\<lambda>has_result.
       if has_result then
         sbind (py_getitem result ''result'') (\<lambda>groups.
         sbind (items_fields [(''id'', ''id'', JNull), (''name'', ''name'', JNull),
                              (''folder_id'', ''folder_id'', JNull),
                              (''keywords_count'', ''count_keywords'', JNull),
                              (''enabled'', ''on'', JNull)] groups) (\<lambda>groups_info.
           Inr (JObj [(''status'', JStr ''success''),
                      (''project_id'', JInt project_id),
                      (''folder_id'', opt_int folder_id),
                      (''groups'', JList groups_info),
                      (''total_count'', JInt (int (length groups_info)))])))
       else Inr (error_envelope ''Failed to get group data'' []))"

definition get_topvisor_keyword_groups ::
    "world \<Rightarrow> int \<Rightarrow> int option \<Rightarrow> request list \<Rightarrow> json \<times> request list" where
  "get_topvisor_keyword_groups w project_id folder_id =
     try_except
       (bnd (TopvisorAPI_default w) (\<lambda>topvisor.
        bnd (TopvisorAPI_get_keyword_groups w topvisor project_id folder_id) (\<lambda>result.
          lift (groups_of_result project_id folder_id result))))
       (\<lambda>e. error_envelope (''Error getting groups: '' @ str_exn e) [])"

definition balance_of_result :: "json \<Rightarrow> exn + json" where
  "balance_of_result result =
     sbind (and_in result ''result'') (\<lambda>has_result.
       if has_result then
         sbind (py_getitem result ''result'') (\<lambda>balance_info.
         sbind (py_get balance_info ''balance'' JNull) (\<lambda>balance.
         sbind (py_get balance_info ''currency'' (JStr ''RUB'')) (\<lambda>currency.
         sbind (py_get balance_info ''xml_limits'' (JObj [])) (\<lambda>xml_limits.
           Inr (JObj [(''status'', JStr ''success''),
                      (''balance'', balance),
                      (''currency'', currency),
                      (''xml_limits'', xml_limits),
                      (''account_info'', balance_info)])))))
       else Inr (error_envelope ''Failed to get balance data'' []))"

definition get_topvisor_balance :: "world \<Rightarrow> request list \<Rightarrow> json \<times> request list" where
  "get_topvisor_balance w =
     try_except
       (bnd (TopvisorAPI_default w) (\<lambda>topvisor.
        bnd (TopvisorAPI_get_balance_info w topvisor) (\<lambda>result.
          lift (balance_of_result result))))
       (\<lambda>e. error_envelope (''Error getting balance: '' @ str_exn e) [])"

definition get_topvisor_project_keywords :: "world \<Rightarrow> int \<Rightarrow> request list \<Rightarrow> json \<times> request list" where
  "get_topvisor_project_keywords w project_id =
     try_except
       (bnd (TopvisorAPI_default w) (\<lambda>topvisor.
        bnd (TopvisorAPI_get_project_keywords w topvisor project_id None None) (\<lambda>result.
          ret (JObj [(''status'', JStr ''success''),
                     (''project_id'', JInt project_id),
                     (''keywords_data'', result)]))))
       (\<lambda>e. error_envelope (''Error getting keywords: '' @ str_exn e) [])"

section \<open>The Ahrefs tools (src/tools/ahrefs.py)\<close>

definition check_ahrefs_result :: "world \<Rightarrow> json \<Rightarrow> exn + json" where
  "check_ahrefs_result w result =
     sbind (and_in result ''error'') (\<lambda>has_error.
       if has_error then
         sbind (py_getitem result ''error'') (\<lambda>err.
           Inr (JObj [(''status'', JStr ''warning''),
                      (''message'', JStr (''API key found, but there is a problem: '' @ fmt w err)),
                      (''checks'', setup_checks True True False),
                      (''help'', JStr ''Check API key validity and account balance'')]))
       else
         sbind (and_in result ''refdomains'') (\<lambda>has_refdomains.
           if has_refdomains then
             Inr (JObj [(''status'', JStr ''success''),
                        (''message'', JStr ''Everything is set up correctly! Ahrefs API is working''),
                        (''checks'', setup_checks True True True),
                        (''test_result'', JStr ''Test request successful'')])
           else
             Inr (error_envelope ''Unexpected response from API''
                    [(''checks'', setup_checks True True False),
                     (''raw_result'', raw_result w result)])))"

definition check_ahrefs_setup :: "world \<Rightarrow> request list \<Rightarrow> json \<times> request list" where
  "check_ahrefs_setup w =
     try_except
       (if \<not> opt_truthy (env_AHREFS_API_KEY w) then
          ret (error_envelope ''API key not found''
                 [(''checks'', setup_checks (dotenv_exists w) False False),
                  (''help'', JStr ''Create .env file and add AHREFS_API_KEY=your_key'')])
        else
          total (try_except
                   (bnd (AhrefsAPI_default w) (\<lambda>ahrefs.
                    bnd (AhrefsAPI_get_refdomains w ahrefs ''example.com'' 1 ''domain_rating:desc'') (\<lambda>result.
                      lift (check_ahrefs_result w result))))
                   (\<lambda>api_error.
                      error_envelope (''API connection error: '' @ str_exn api_error)
                        [(''checks'', setup_checks (dotenv_exists w) (opt_truthy (env_AHREFS_API_KEY w)) False),
                         (''error_type'', JStr (type_name_exn api_error)),
                         (''help'', JStr ''Check internet connection and API key validity'')])))
       (\<lambda>e. error_envelope (''Setup check error: '' @ str_exn e)
                [(''help'', JStr ''Make sure API key is added to .env file'')])"

text \<open>The branch shared by the three data tools (lines 133--170, 198--235, 266--304):
  \<^verbatim>\<open>"error"\<close> first, then the provider's own key \<open>k\<close>, else the failure message.  The
  success envelope is \<open>head @ [(k, result[k])] @ tail\<close>.\<close>

definition ahrefs_of_result ::
    "world \<Rightarrow> string \<Rightarrow> string \<Rightarrow> (string \<times> json) list \<Rightarrow> (string \<times> json) list \<Rightarrow> json \<Rightarrow> exn + json" where
  "ahrefs_of_result w k failure head tail result =
     sbind (and_in result ''error'') (\<lambda>has_error.
       if has_error then
         sbind (py_getitem result ''error'') (\<lambda>err.
         sbind (py_get result ''details'' (JStr ''Check API key and balance'')) (\<lambda>details.
           Inr (error_envelope (''API error: '' @ fmt w err) [(''details'', details)])))
       else
         sbind (and_in result k) (\<lambda>has_data.
           if has_data then
             sbind (py_getitem result k) (\<lambda>data. Inr (JObj (head @ [(k, data)] @ tail)))
           else
             Inr (error_envelope failure [(''raw_result'', raw_result w result)])))"

definition refdomains_of_result :: "world \<Rightarrow> string \<Rightarrow> int \<Rightarrow> string \<Rightarrow> json \<Rightarrow> exn + json" where
  "refdomains_of_result w target limit order_by =
     ahrefs_of_result w ''refdomains'' ''Failed to get referring domains data''
       [(''status'', JStr ''success''), (''target'', JStr target)]
       [(''limit'', JInt limit), (''order_by'', JStr order_by)]"

definition get_ahrefs_refdomains :: "world \<Rightarrow> string \<Rightarrow> int \<Rightarrow> request list \<Rightarrow> json \<times> request list" where
  "get_ahrefs_refdomains w target limit =
     try_except
       (let order_by = ''domain_rating:desc'' in
        bnd (AhrefsAPI_default w) (\<lambda>ahrefs.
        bnd (AhrefsAPI_get_refdomains w ahrefs target limit order_by) (\<lambda>result.
          lift (refdomains_of_result w target limit order_by result))))
       (\<lambda>e. error_envelope (''Error getting referring domains: '' @ str_exn e) [])"

definition backlinks_of_result :: "world \<Rightarrow> string \<Rightarrow> int \<Rightarrow> string \<Rightarrow> json \<Rightarrow> exn + json" where
  "backlinks_of_result w target limit order_by =
     ahrefs_of_result w ''backlinks'' ''Failed to get backlinks data''
       [(''status'', JStr ''success''), (''target'', JStr target)]
       [(''limit'', JInt limit), (''order_by'', JStr order_by)]"

definition get_ahrefs_backlinks :: "world \<Rightarrow> string \<Rightarrow> int \<Rightarrow> request list \<Rightarrow> json \<times> request list" where
  "get_ahrefs_backlinks w target limit =
     try_except
       (let order_by = ''domain_rating_source:desc'' in
        bnd (AhrefsAPI_default w) (\<lambda>ahrefs.
        bnd (AhrefsAPI_get_backlinks w ahrefs target limit order_by) (\<lambda>result.
          lift (backlinks_of_result w target limit order_by result))))
       (\<lambda>e. error_envelope (''Error getting backlinks: '' @ str_exn e) [])"

definition organic_of_result ::
    "world \<Rightarrow> string \<Rightarrow> int \<Rightarrow> string \<Rightarrow> string option \<Rightarrow> json \<Rightarrow> exn + json" where
  "organic_of_result w target limit order_by date =
     ahrefs_of_result w ''keywords'' ''Failed to get organic keywords data''
       [(''status'', JStr ''success''), (''target'', JStr target)]
       [(''limit'', JInt limit), (''order_by'', JStr order_by), (''date'', opt_str date)]"

definition get_ahrefs_organic_keywords ::
    "world \<Rightarrow> string \<Rightarrow> int \<Rightarrow> string option \<Rightarrow> request list \<Rightarrow> json \<times> request list" where
  "get_ahrefs_organic_keywords w target limit date =
     try_except
       (bnd (AhrefsAPI_default w) (\<lambda>ahrefs.
        let order_by = ''best_position:asc'' in
        bnd (AhrefsAPI_get_organic_keywords w ahrefs target limit date order_by) (\<lambda>result.
          lift (organic_of_result w target limit order_by date result))))
       (\<lambda>e. error_envelope (''Error getting organic keywords: '' @ str_exn e) [])"

section \<open>The tools as src/research_server.py defines them\<close>

text \<open>src/research_server.py holds its own copy of every tool above.  Four copies differ
  from src/tools: the three Ahrefs data tools take \<open>order_by\<close> from the caller and put
  \<^verbatim>\<open>"total_count": len(...)\<close> right after the data, and the regions tool maps each
  region through a field whitelist.\<close>

definition research_server_ahrefs_of_result ::
    "world \<Rightarrow> string \<Rightarrow> string \<Rightarrow> (string \<times> json) list \<Rightarrow> (string \<times> json) list \<Rightarrow> json \<Rightarrow> exn + json" where
  "research_server_ahrefs_of_result w k failure head tail result =
     sbind (and_in result ''error'') (\<lambda>has_error.
       if has_error then
         sbind (py_getitem result ''error'') (\<lambda>err.
         sbind (py_get result ''details'' (JStr ''Check API key and balance'')) (\<lambda>details.
           Inr (error_envelope (''API error: '' @ fmt w err) [(''details'', details)])))
       else
         sbind (and_in result k) (\<lambda>has_data.
           if has_data then
             sbind (py_getitem result k) (\<lambda>data.
             sbind (py_len data) (\<lambda>n.
               Inr (JObj (head @ [(k, data), (''total_count'', JInt (int n))] @ tail))))
           else
             Inr (error_envelope failure [(''raw_result'', raw_result w result)])))"

definition research_server_get_ahrefs_refdomains ::
    "world \<Rightarrow> string \<Rightarrow> int \<Rightarrow> string \<Rightarrow> request list \<Rightarrow> json \<times> request list" where
  "research_server_get_ahrefs_refdomains w target limit order_by =
     try_except
       (bnd (AhrefsAPI_default w) (\<lambda>ahrefs.
        bnd (AhrefsAPI_get_refdomains w ahrefs target limit order_by) (\<lambda>result.
          lift (research_server_ahrefs_of_result w ''refdomains'' ''Failed to get referring domains data''
                  [(''status'', JStr ''success''), (''target'', JStr target)]
                  [(''limit'', JInt limit), (''order_by'', JStr order_by)] result))))
       (\<lambda>e. error_envelope (''Error getting referring domains: '' @ str_exn e) [])"

definition research_server_get_ahrefs_backlinks ::
    "world \<Rightarrow> string \<Rightarrow> int \<Rightarrow> string \<Rightarrow> request list \<Rightarrow> json \<times> request list" where
  "research_server_get_ahrefs_backlinks w target limit order_by =
     try_except
       (bnd (AhrefsAPI_default w) (\<lambda>ahrefs.
        bnd (AhrefsAPI_get_backlinks w ahrefs target limit order_by) (\<lambda>result.
          lift (research_server_ahrefs_of_result w ''backlinks'' ''Failed to get backlinks data''
                  [(''status'', JStr ''success''), (''target'', JStr target)]
                  [(''limit'', JInt limit), (''order_by'', JStr order_by)] result))))
       (\<lambda>e. error_envelope (''Error getting backlinks: '' @ str_exn e) [])"

definition research_server_get_ahrefs_organic_keywords ::
    "world \<Rightarrow> string \<Rightarrow> int \<Rightarrow> string option \<Rightarrow> string \<Rightarrow> request list \<Rightarrow> json \<times> request list" where
  "research_server_get_ahrefs_organic_keywords w target limit date order_by =
     try_except
       (bnd (AhrefsAPI_default w) (\<lambda>ahrefs.
        bnd (AhrefsAPI_get_organic_keywords w ahrefs target limit date order_by) (\<lambda>result.
          lift (research_server_ahrefs_of_result w ''keywords'' ''Failed to get organic keywords data''
                  [(''status'', JStr ''success''), (''target'', JStr target)]
                  [(''limit'', JInt limit), (''order_by'', JStr order_by), (''date'', opt_str date)] result))))
       (\<lambda>e. error_envelope (''Error getting organic keywords: '' @ str_exn e) [])"

definition research_server_regions_of_result :: "int \<Rightarrow> json \<Rightarrow> exn + json" where
  "research_server_regions_of_result project_id result =
     sbind (and_in result ''result'') (\<lambda>has_result.
       if has_result then
         sbind (py_getitem result ''result'') (\<lambda>regions.
         sbind (items_fields [(''id'', ''id'', JNull), (''searcher'', ''searcher'', JNull),
                              (''region_key'', ''region_key'', JNull),
                              (''region_name'', ''region_name'', JNull),
                              (''enabled'', ''enabled'', JNull),
                              (''device'', ''device'', JNull)] regions) (\<lambda>regions_info.
           Inr (JObj [(''status'', JStr ''success''),
                      (''project_id'', JInt project_id),
                      (''regions'', JList regions_info),
                      (''total_count'', JInt (int (length regions_info)))])))
       else Inr (error_envelope ''Failed to get region data'' []))"

definition research_server_get_topvisor_regions ::
    "world \<Rightarrow> int \<Rightarrow> request list \<Rightarrow> json \<times> request list" where
  "research_server_get_topvisor_regions w project_id =
     try_except
       (bnd (TopvisorAPI_default w) (\<lambda>topvisor.
        bnd (TopvisorAPI_get_project_regions w topvisor project_id) (\<lambda>result.
          lift (research_server_regions_of_result project_id result))))
       (\<lambda>e. error_envelope (''Error getting regions: '' @ str_exn e) [])"

section \<open>Every tool as one call\<close>

datatype tool_call =
    Check_topvisor_setup
  | Get_topvisor_projects
  | Get_topvisor_keywords int "int option" "int option"
  | Get_topvisor_positions_history int json "string option" "string option" int int
  | Get_topvisor_positions_summary int "string option" "string option"
  | Get_topvisor_competitors int
  | Get_topvisor_regions int
  | Get_topvisor_keyword_folders int
  | Get_topvisor_keyword_groups int "int option"
  | Get_topvisor_balance
  | Get_topvisor_project_keywords int
  | Check_ahrefs_setup
  | Get_ahrefs_refdomains string int
  | Get_ahrefs_backlinks string int
  | Get_ahrefs_organic_keywords string int "string option"
  | Research_server_get_topvisor_regions int
  | Research_server_get_ahrefs_refdomains string int string
  | Research_server_get_ahrefs_backlinks string int string
  | Research_server_get_ahrefs_organic_keywords string int "string option" string

fun tool :: "world \<Rightarrow> tool_call \<Rightarrow> request list \<Rightarrow> json \<times> request list" where
  "tool w Check_topvisor_setup = check_topvisor_setup w"
| "tool w Get_topvisor_projects = get_topvisor_projects w"
| "tool w (Get_topvisor_keywords p f g) = get_topvisor_keywords w p f g"
| "tool w (Get_topvisor_positions_history p r d1 d2 l off) = get_topvisor_positions_history w p r d1 d2 l off"
| "tool w (Get_topvisor_positions_summary p d1 d2) = get_topvisor_positions_summary w p d1 d2"
| "tool w (Get_topvisor_competitors p) = get_topvisor_competitors w p"
| "tool w (Get_topvisor_regions p) = get_topvisor_regions w p"
| "tool w (Get_topvisor_keyword_folders p) = get_topvisor_keyword_folders w p"
| "tool w (Get_topvisor_keyword_groups p f) = get_topvisor_keyword_groups w p f"
| "tool w Get_topvisor_balance = get_topvisor_balance w"
| "tool w (Get_topvisor_project_keywords p) = get_topvisor_project_keywords w p"
| "tool w Check_ahrefs_setup = check_ahrefs_setup w"
| "tool w (Get_ahrefs_refdomains t l) = get_ahrefs_refdomains w t l"
| "tool w (Get_ahrefs_backlinks t l) = get_ahrefs_backlinks w t l"
| "tool w (Get_ahrefs_organic_keywords t l d) = get_ahrefs_organic_keywords w t l d"
| "tool w (Research_server_get_topvisor_regions p) = research_server_get_topvisor_regions w p"
| "tool w (Research_server_get_ahrefs_refdomains t l ob) = research_server_get_ahrefs_refdomains w t l ob"
| "tool w (Research_server_get_ahrefs_backlinks t l ob) = research_server_get_ahrefs_backlinks w t l ob"
| "tool w (Research_server_get_ahrefs_organic_keywords t l d ob) = research_server_get_ahrefs_organic_keywords w t l d ob"

text \<open>The status of an envelope, and whether it has an \<^verbatim>\<open>"error"\<close> key, as a caller that
  decodes the tool's text reads them.\<close>

definition status_of :: "json \<Rightarrow> json option" where
  "status_of envelope = (case envelope of JObj kvs \<Rightarrow> dict_get kvs ''status'' | _ \<Rightarrow> None)"

section \<open>The chat client's registry (src/mcp_chatbot.py)\<close>

record tool_decl =
  tool_name :: string
  tool_description :: json
  tool_inputSchema :: json

record prompt_decl =
  prompt_name :: string
  prompt_description :: json
  prompt_arguments :: json

text \<open>\<open>sessions\<close> is the dictionary from tool names, prompt names and resource URIs to
  sessions; the three kinds of key share it.\<close>

record 'sess chatbot =
  available_tools :: "tool_decl list"
  available_prompts :: "prompt_decl list"
  sessions :: "(string \<times> 'sess) list"

definition new_chatbot :: "'sess chatbot" where
  "new_chatbot = \<lparr> available_tools = [], available_prompts = [], sessions = [] \<rparr>"

text \<open>A call to a sub-service either raises or answers.  A sub-service is what it answers
  to being started and initialised, and to the three listings.\<close>

datatype 'a reply = Raised | Replied 'a

record 'sess server =
  srv_session :: "'sess reply"
  srv_tools :: "tool_decl list reply"
  srv_prompts :: "prompt_decl list reply"
  srv_resources :: "string list reply"

definition register_tool :: "'sess \<Rightarrow> tool_decl \<Rightarrow> 'sess chatbot \<Rightarrow> 'sess chatbot" where
  "register_tool session t chat =
     chat \<lparr> sessions := dict_set (sessions chat) (tool_name t) session,
           available_tools := available_tools chat @ [t] \<rparr>"

definition register_prompt :: "'sess \<Rightarrow> prompt_decl \<Rightarrow> 'sess chatbot \<Rightarrow> 'sess chatbot" where
  "register_prompt session p chat =
     chat \<lparr> sessions := dict_set (sessions chat) (prompt_name p) session,
           available_prompts := available_prompts chat @ [p] \<rparr>"

definition register_resource :: "'sess \<Rightarrow> string \<Rightarrow> 'sess chatbot \<Rightarrow> 'sess chatbot" where
  "register_resource session uri chat = chat \<lparr> sessions := dict_set (sessions chat) uri session \<rparr>"

text \<open>\<^verbatim>\<open>connect_to_server\<close>: a failure to start leaves the registry as it was; a listing
  that raises ends the registration of this sub-service and keeps what was registered.\<close>

definition connect_to_server :: "'sess server \<Rightarrow> 'sess chatbot \<Rightarrow> 'sess chatbot" where
  "connect_to_server srv chat =
     (case srv_session srv of
        Raised \<Rightarrow> chat
      | Replied session \<Rightarrow>
          (case srv_tools srv of
             Raised \<Rightarrow> chat
           | Replied tools \<Rightarrow>
               (let chat1 = fold (register_tool session) tools chat in
                case srv_prompts srv of
                  Raised \<Rightarrow> chat1
                | Replied prompts \<Rightarrow>
                    (let chat2 = fold (register_prompt session) prompts chat1 in
                     case srv_resources srv of
                       Raised \<Rightarrow> chat2
                     | Replied uris \<Rightarrow> fold (register_resource session) uris chat2))))"

text \<open>\<^verbatim>\<open>connect_to_servers\<close>: the configured sub-services, in the order of the
  configuration.\<close>

definition connect_to_servers :: "'sess server list \<Rightarrow> 'sess chatbot \<Rightarrow> 'sess chatbot" where
  "connect_to_servers servers chat = fold connect_to_server servers chat"

text \<open>The lookup \<^verbatim>\<open>self.sessions.get(name)\<close> of \<^verbatim>\<open>process_query\<close> and
  \<^verbatim>\<open>execute_prompt\<close>: \<open>None\<close> is the "not found" message.\<close>

definition lookup_session :: "'sess chatbot \<Rightarrow> string \<Rightarrow> 'sess option" where
  "lookup_session chat name = dict_get (sessions chat) name"

text \<open>The names a sub-service registers with its session, in the order in which
  \<^verbatim>\<open>connect_to_server\<close> assigns them.\<close>

definition registrations :: "'sess server \<Rightarrow> (string \<times> 'sess) list" where
  "registrations srv =
     (case srv_session srv of
        Raised \<Rightarrow> []
      | Replied session \<Rightarrow>
          (case srv_tools srv of
             Raised \<Rightarrow> []
           | Replied tools \<Rightarrow>
               map (\<lambda>t. (tool_name t, session)) tools @
               (case srv_prompts srv of
                  Raised \<Rightarrow> []
                | Replied prompts \<Rightarrow>
                    map (\<lambda>p. (prompt_name p, session)) prompts @
                    (case srv_resources srv of
                       Raised \<Rightarrow> []
                     | Replied uris \<Rightarrow> map (\<lambda>u. (u, session)) uris))))"

text \<open>\<^verbatim>\<open>s.startswith(p)\<close>\<close>

definition startswith :: "string \<Rightarrow> string \<Rightarrow> bool" where
  "startswith s p = (take (length p) s = p)"

text \<open>\<^verbatim>\<open>get_resource\<close> up to the call of \<^verbatim>\<open>read_resource\<close>: which session is asked, or
  the "not found" message.\<close>

datatype 'sess resource_action = Resource_not_found string | Read_resource 'sess string

definition get_resource :: "'sess chatbot \<Rightarrow> string \<Rightarrow> 'sess resource_action" where
  "get_resource chat resource_uri =
     (let session = dict_get (sessions chat) resource_uri;
          session =
            (if session = None \<and> startswith resource_uri ''papers://'' then
               (case find (\<lambda>(uri, sess). startswith uri ''papers://'') (sessions chat) of
                  Some (uri, sess) \<Rightarrow> Some sess
                | None \<Rightarrow> None)
             else session)
      in case session of
           None \<Rightarrow> Resource_not_found resource_uri
         | Some s \<Rightarrow> Read_resource s resource_uri)"

section \<open>Concrete inputs\<close>

text \<open>A world whose provider gives the same outcome to every request, with both keys
  set.\<close>

definition example_world :: "outcome \<Rightarrow> world" where
  "example_world out =
     \<lparr> env_TOPVISOR_USER_ID = Some ''1001'', env_TOPVISOR_API_KEY = Some ''tv-key'',
       env_AHREFS_API_KEY = Some ''ah-key'', dotenv_exists = True,
       transport = (\<lambda>req. out), today = ''2025-08-22'', week_ago = ''2025-08-15'',
       py_str = (\<lambda>v. ''...''), csv_rows = (\<lambda>s. Inr []) \<rparr>"

definition http :: "int \<Rightarrow> json \<Rightarrow> outcome" where
  "http code body = Response \<lparr> status_code = code, text_body = ''body'', json_body = Inr body \<rparr>"

definition example_topvisor :: topvisor_api where
  "example_topvisor =
     \<lparr> tv_user_id = Some ''1001'', tv_api_key = ''tv-key'',
       tv_base_url = ''https://api.topvisor.com/v2/json/get'',
       tv_headers = [(''Content-Type'', JStr ''application/json''), (''User-Id'', JStr ''1001''),
                     (''Authorization'', JStr ''bearer tv-key'')] \<rparr>"

definition example_server :: "nat \<Rightarrow> string \<Rightarrow> nat server" where
  "example_server n name =
     \<lparr> srv_session = Replied n,
       srv_tools = Replied [\<lparr> tool_name = name, tool_description = JNull, tool_inputSchema = JObj [] \<rparr>],
       srv_prompts = Replied [], srv_resources = Replied [] \<rparr>"

definition example_chat :: "nat chatbot" where
  "example_chat =
     \<lparr> available_tools = [], available_prompts = [],
       sessions = [(''search_papers'', 1), (''papers://folders'', 2), (''papers://ai'', 3)] \<rparr>"

text \<open>A provider answer with one project and the envelope \<^verbatim>\<open>get_topvisor_projects\<close> makes
  of it; a provider answer with one referring domain.\<close>

definition raw_projects :: json where
  "raw_projects =
     JObj [(''result'', JList [JObj [(''id'', JInt 7), (''name'', JStr ''site''), (''on'', JInt 1)]])]"

definition normalized_projects :: json where
  "normalized_projects =
     JObj [(''status'', JStr ''success''),
           (''projects'', JList [JObj [(''id'', JInt 7), (''name'', JStr ''site''), (''url'', JNull),
                                       (''status'', JNull), (''created'', JNull)]]),
           (''total_count'', JInt 1)]"

definition one_refdomain :: json where
  "one_refdomain = JObj [(''domain'', JStr ''a.org''), (''domain_rating'', JFloat (Finite 91 0))]"

definition raw_refdomains :: json where
  "raw_refdomains = JObj [(''refdomains'', JList [one_refdomain])]"

definition normalized_refdomains :: json where
  "normalized_refdomains =
     JObj [(''status'', JStr ''success''), (''target'', JStr ''example.com''),
           (''refdomains'', JList [one_refdomain]),
           (''limit'', JInt 1), (''order_by'', JStr ''domain_rating:desc'')]"

text \<open>A provider answer to the position history: one keyword with three items, the
  last under a key of one component.\<close>

definition raw_positions :: json where
  "raw_positions =
     JObj [(''result'',
       JObj [(''keywords'',
         JList [JObj [(''name'', JStr ''seo''),
                      (''positionsData'',
                         JObj [(''2025-08-15:19294818:33'', JObj [(''position'', JStr ''5'')]),
                               (''2025-08-16:19294818:33'', JObj [(''position'', JStr ''--'')]),
                               (''2025-08-17'', JObj [(''position'', JStr ''7'')])])]])])]"

text \<open>What every envelope of a tool satisfies: no \<^verbatim>\<open>"error"\<close> key, and one of the three
  statuses.\<close>

definition envelope_ok :: "json \<Rightarrow> bool" where
  "envelope_ok envelope =
     (\<not> has_key envelope ''error'' \<and>
      status_of envelope \<in> {Some (JStr ''success''), Some (JStr ''warning''), Some (JStr ''error'')})"

section \<open>Construction of the clients\<close>

text \<open>
  C8.  Constructing either client with an absent or empty API key raises
  \<^verbatim>\<open>ValueError\<close>; with a non-empty key it returns the client.  In both cases the list of
  requests sent is the one the constructor started from: no network call is made.
\<close>

theorem client_construction_needs_key:
  "((api_key = None \<or> api_key = Some []) \<longrightarrow>
      (\<exists>m. TopvisorAPI_init user_id api_key log = (Inl (ValueError m), log)) \<and>
      (\<exists>m. AhrefsAPI_init api_key log = (Inl (ValueError m), log))) \<and>
   ((\<exists>key. api_key = Some key \<and> key \<noteq> []) \<longrightarrow>
      (\<exists>c. TopvisorAPI_init user_id api_key log = (Inr c, log)) \<and>
      (\<exists>c. AhrefsAPI_init api_key log = (Inr c, log)))"
  by (auto simp: TopvisorAPI_init_def AhrefsAPI_init_def lift_def ret_def)

theorem client_construction_needs_key_witness:
  "(\<exists>m. TopvisorAPI_init (Some ''1001'') None [] = (Inl (ValueError m), [])) \<and>
   (\<exists>m. AhrefsAPI_init (Some []) [] = (Inl (ValueError m), [])) \<and>
   (\<exists>c. TopvisorAPI_init (Some ''1001'') (Some ''tv-key'') [] = (Inr c, [])) \<and>
   (\<exists>c. AhrefsAPI_init (Some ''ah-key'') [] = (Inr c, []))"
  using client_construction_needs_key [of None "Some ''1001''" "[]"]
        client_construction_needs_key [of "Some []" "Some ''1001''" "[]"]
        client_construction_needs_key [of "Some ''tv-key''" "Some ''1001''" "[]"]
        client_construction_needs_key [of "Some ''ah-key''" "Some ''1001''" "[]"]
  by simp

section \<open>Keyword filters\<close>

text \<open>
  C10.  \<^verbatim>\<open>get_project_keywords\<close> with \<open>folder_id = 0\<close> is the call with
  \<open>folder_id = None\<close>, and likewise for \<open>group_id\<close>: the same request is sent and the same
  dictionary comes back.  With both zero the payload is \<^verbatim>\<open>{"project_id": p}\<close> alone, the
  request of an unfiltered call.
\<close>

theorem get_project_keywords_zero_is_none:
  "TopvisorAPI_get_project_keywords w self p (Some 0) g =
     TopvisorAPI_get_project_keywords w self p None g \<and>
   TopvisorAPI_get_project_keywords w self p f (Some 0) =
     TopvisorAPI_get_project_keywords w self p f None \<and>
   keywords_payload p (Some 0) (Some 0) = JObj [(''project_id'', JInt p)] \<and>
   snd (TopvisorAPI_get_project_keywords w self p (Some 0) (Some 0) log) =
     log @ [TopvisorAPI_request self ''keywords_2/keywords'' (Some (JObj [(''project_id'', JInt p)]))]"
  by (simp add: TopvisorAPI_get_project_keywords_def keywords_payload_def opt_int_truthy_def
        TopvisorAPI_make_request_def Let_def)

section \<open>Position history: keys and values\<close>

lemma decimal_value_snoc:
  "decimal_value (s @ [c]) = 10 * decimal_value s + (int (of_char c) - 48)"
  by (simp add: decimal_value_def)

text \<open>Reading back what \<^verbatim>\<open>str\<close> prints of a natural number gives the number: the value
  \<open>decimal_value\<close> computes is the integer the digits denote.\<close>

lemma decimal_value_str_nat: "decimal_value (str_nat n) = int n"
proof (induction n rule: str_nat.induct)
  case (1 n)
  show ?case
  proof (cases "n < 10")
    case True
    then show ?thesis by (subst str_nat.simps) (simp add: decimal_value_def)
  next
    case False
    have "decimal_value (str_nat n) =
            10 * decimal_value (str_nat (n div 10)) + (int (of_char (char_of (48 + n mod 10))) - 48)"
      using False by (subst str_nat.simps) (simp add: decimal_value_snoc)
    also have "\<dots> = 10 * int (n div 10) + int (n mod 10)"
      using 1[OF False] by simp
    also have "\<dots> = int n" by presburger
    finally show ?thesis .
  qed
qed

lemma str_nat_decimal: "str_nat n \<noteq> [] \<and> list_all is_decimal_char (str_nat n)"
proof (induction n rule: str_nat.induct)
  case (1 n)
  show ?case
  proof (cases "n < 10")
    case True
    then show ?thesis by (subst (1 2) str_nat.simps) (simp add: is_decimal_char_def)
  next
    case False
    have d: "is_decimal_char (char_of (48 + n mod 10))" by (simp add: is_decimal_char_def)
    show ?thesis using 1[OF False] False d by (subst (1 2) str_nat.simps) simp
  qed
qed

lemma decimal_isdigit: "s \<noteq> [] \<Longrightarrow> list_all is_decimal_char s \<Longrightarrow> isdigit s"
  by (simp add: isdigit_def is_digit_char_def list_all_iff)

text \<open>
  C5.  When the key of an item of \<^verbatim>\<open>positionsData\<close> splits on \<open>:\<close> into at least three
  components, a record that is appended has the first, second and third component as
  its date, project id and region, in the row and in the dictionary built from it; a
  record is appended whenever the item is a dictionary whose \<^verbatim>\<open>"position"\<close> is a string
  that is not a digit string or is a decimal one.  With fewer than three components
  nothing is appended.  The key \<open>2025-08-15:19294818:33\<close> splits into \<open>2025-08-15\<close>,
  \<open>19294818\<close> and \<open>33\<close>.
\<close>

theorem position_key_components:
  "(3 \<le> length (split_on (CHR '':'') date_key) \<longrightarrow>
      (\<forall>row. position_record keyword_name date_key position_info = Inr (Some row) \<longrightarrow>
         row_date row = split_on (CHR '':'') date_key ! 0 \<and>
         row_project_id row = split_on (CHR '':'') date_key ! 1 \<and>
         row_region row = split_on (CHR '':'') date_key ! 2 \<and>
         py_getitem (row_json row) ''date'' = Inr (JStr (split_on (CHR '':'') date_key ! 0)) \<and>
         py_getitem (row_json row) ''project_id'' = Inr (JStr (split_on (CHR '':'') date_key ! 1)) \<and>
         py_getitem (row_json row) ''region'' = Inr (JStr (split_on (CHR '':'') date_key ! 2))) \<and>
      (\<forall>kvs s. position_info = JObj kvs \<and> dict_get kvs ''position'' = Some (JStr s) \<and>
           (isdigit s \<longrightarrow> list_all is_decimal_char s) \<longrightarrow>
         (\<exists>row. position_record keyword_name date_key position_info = Inr (Some row)))) \<and>
   (length (split_on (CHR '':'') date_key) < 3 \<longrightarrow>
      position_record keyword_name date_key position_info = Inr None) \<and>
   split_on (CHR '':'') ''2025-08-15:19294818:33'' = [''2025-08-15'', ''19294818'', ''33'']"
  apply (intro conjI impI allI)
        apply (auto simp: position_record_def Let_def sbind_def row_json_def dict_get_def
      dict_and_in_def has_key_def position_numeric_of_def int_of_digits_def isdigit_def
      split: if_splits sum.splits json.splits option.splits)
  done

theorem position_key_components_witness:
  "3 \<le> length (split_on (CHR '':'') ''2025-08-15:19294818:33'') \<and>
   (\<exists>row. position_record (JStr ''seo'') ''2025-08-15:19294818:33'' (JObj [(''position'', JStr ''5'')])
            = Inr (Some row) \<and>
          row_date row = ''2025-08-15'' \<and> row_project_id row = ''19294818'' \<and> row_region row = ''33'') \<and>
   length (split_on (CHR '':'') ''2025-08-15:19294818'') < 3 \<and>
   position_record (JStr ''seo'') ''2025-08-15:19294818'' (JObj [(''position'', JStr ''5'')]) = Inr None"
proof -
  have l3: "3 \<le> length (split_on (CHR '':'') ''2025-08-15:19294818:33'')" by simp
  have l2: "length (split_on (CHR '':'') ''2025-08-15:19294818'') < 3" by simp
  have d: "dict_get [(''position'', JStr ''5'')] ''position'' = Some (JStr ''5'')"
    by (simp add: dict_get_def)
  have dec: "list_all is_decimal_char ''5''" by (simp add: is_decimal_char_def)
  note t = position_key_components
    [of "''2025-08-15:19294818:33''" "JStr ''seo''" "JObj [(''position'', JStr ''5'')]"]
  from t l3 d dec obtain row where
    r: "position_record (JStr ''seo'') ''2025-08-15:19294818:33'' (JObj [(''position'', JStr ''5'')])
          = Inr (Some row)"
    by blast
  with t l3 have "row_date row = ''2025-08-15'' \<and> row_project_id row = ''19294818'' \<and> row_region row = ''33''"
    by simp
  moreover have "position_record (JStr ''seo'') ''2025-08-15:19294818'' (JObj [(''position'', JStr ''5'')]) = Inr None"
    using position_key_components
      [of "''2025-08-15:19294818''" "JStr ''seo''" "JObj [(''position'', JStr ''5'')]"] l2
    by blast
  ultimately show ?thesis using l3 l2 r by blast
qed

text \<open>
  C6.  For a record that is appended: its position is the item's \<^verbatim>\<open>"position"\<close>; when
  that is the string \<open>--\<close> the numeric position is null and \<open>is_not_ranking\<close> is true;
  when it is a non-empty string of decimal digits the numeric position is the integer
  the digits denote and \<open>is_not_ranking\<close> is false.  In particular the printed form of a
  natural number \<open>n\<close> gives \<open>n\<close>.
\<close>

theorem position_value_parsing:
  "position_record keyword_name date_key position_info = Inr (Some row) \<Longrightarrow>
     py_getitem position_info ''position'' = Inr (row_position row) \<and>
     (row_position row = JStr ''--'' \<longrightarrow> row_position_numeric row = JNull \<and> row_is_not_ranking row) \<and>
     (\<forall>s. row_position row = JStr s \<and> s \<noteq> [] \<and> list_all is_decimal_char s \<longrightarrow>
          row_position_numeric row = JInt (decimal_value s) \<and> \<not> row_is_not_ranking row) \<and>
     (\<forall>n. row_position row = JStr (str_nat n) \<longrightarrow>
          row_position_numeric row = JInt (int n) \<and> \<not> row_is_not_ranking row) \<and>
     py_getitem (row_json row) ''position_numeric'' = Inr (row_position_numeric row) \<and>
     py_getitem (row_json row) ''is_not_ranking'' = Inr (JBool (row_is_not_ranking row))"
proof -
  assume a: "position_record keyword_name date_key position_info = Inr (Some row)"
  from a obtain v num where
    g: "py_getitem position_info ''position'' = Inr v" and
    n: "position_numeric_of v = Inr num" and
    r: "row_position row = v" "row_position_numeric row = num"
       "row_is_not_ranking row = (v = JStr ''--'')"
    by (auto simp: position_record_def Let_def sbind_def split: if_splits sum.splits)
  have dash: "v = JStr ''--'' \<Longrightarrow> num = JNull"
    using n by (simp add: position_numeric_of_def isdigit_def is_digit_char_def is_decimal_char_def)
  have dec: "num = JInt (decimal_value s) \<and> v \<noteq> JStr ''--''"
    if "v = JStr s" "s \<noteq> []" "list_all is_decimal_char s" for s
  proof -
    have "isdigit s" using that by (simp add: decimal_isdigit)
    then have "num = JInt (decimal_value s)"
      using n that by (simp add: position_numeric_of_def int_of_digits_def sbind_def)
    moreover have "\<not> list_all is_decimal_char ''--''" by (simp add: is_decimal_char_def)
    ultimately show ?thesis using that by auto
  qed
  have nat: "num = JInt (int n) \<and> v \<noteq> JStr ''--''" if "v = JStr (str_nat n)" for n
    using dec[OF that] str_nat_decimal[of n] by (simp add: decimal_value_str_nat)
  have j: "py_getitem (row_json row) ''position_numeric'' = Inr (row_position_numeric row) \<and>
           py_getitem (row_json row) ''is_not_ranking'' = Inr (JBool (row_is_not_ranking row))"
    by (simp add: row_json_def dict_get_def)
  show ?thesis using g r dash dec nat j by auto
qed

theorem position_value_parsing_witness:
  "(\<exists>row. position_record (JStr ''seo'') ''2025-08-15:19294818:33'' (JObj [(''position'', JStr ''--'')]) =
            Inr (Some row) \<and>
          row_position row = JStr ''--'' \<and> row_position_numeric row = JNull \<and> row_is_not_ranking row) \<and>
   (\<exists>row. position_record (JStr ''seo'') ''2025-08-15:19294818:33'' (JObj [(''position'', JStr ''5'')]) =
            Inr (Some row) \<and>
          row_position row = JStr ''5'' \<and> row_position_numeric row = JInt 5 \<and> \<not> row_is_not_ranking row)"
proof -
  let ?k = "''2025-08-15:19294818:33''"
  have e1: "\<exists>row. position_record (JStr ''seo'') ?k (JObj [(''position'', JStr ''--'')]) = Inr (Some row)"
    by (simp add: position_record_def dict_and_in_def has_key_def dict_get_def sbind_def
          position_numeric_of_def isdigit_def is_digit_char_def is_decimal_char_def)
  have e2: "\<exists>row. position_record (JStr ''seo'') ?k (JObj [(''position'', JStr ''5'')]) = Inr (Some row)"
    by (simp add: position_record_def dict_and_in_def has_key_def dict_get_def sbind_def
          position_numeric_of_def int_of_digits_def isdigit_def is_digit_char_def is_decimal_char_def)
  from e1 obtain r1 where
    r1: "position_record (JStr ''seo'') ?k (JObj [(''position'', JStr ''--'')]) = Inr (Some r1)"
    by blast
  from e2 obtain r2 where
    r2: "position_record (JStr ''seo'') ?k (JObj [(''position'', JStr ''5'')]) = Inr (Some r2)"
    by blast
  have p1: "row_position r1 = JStr ''--''"
    using position_value_parsing[OF r1] by (simp add: dict_get_def)
  have p2: "row_position r2 = JStr ''5''"
    using position_value_parsing[OF r2] by (simp add: dict_get_def)
  have five: "decimal_value ''5'' = 5" by (simp add: decimal_value_def)
  have f1: "row_position_numeric r1 = JNull \<and> row_is_not_ranking r1"
    using position_value_parsing[OF r1] p1 by blast
  have f2: "row_position_numeric r2 = JInt 5 \<and> \<not> row_is_not_ranking r2"
    using position_value_parsing[OF r2] p2 five by (simp add: is_decimal_char_def)
  show ?thesis using r1 r2 p1 p2 f1 f2 by blast
qed

text \<open>The two loops on a provider answer with one keyword and three items, the last
  with a key of one component: two rows, and the counts and dates of the envelope.\<close>

lemma positions_of_result_example:
  "sbind (positions_of_result w 19294818 (JList [JStr ''33'']) None None 100 0 raw_positions)
     (\<lambda>envelope. Inr (map (py_getitem envelope)
        [''status'', ''positions'', ''total_count'', ''unique_keywords'', ''date_range''])) =
   Inr [Inr (JStr ''success''),
        Inr (JList
          [JObj [(''keyword_name'', JStr ''seo''), (''date'', JStr ''2025-08-15''),
                 (''position'', JStr ''5''), (''project_id'', JStr ''19294818''),
                 (''region'', JStr ''33''), (''position_numeric'', JInt 5),
                 (''is_not_ranking'', JBool False)],
           JObj [(''keyword_name'', JStr ''seo''), (''date'', JStr ''2025-08-16''),
                 (''position'', JStr ''--''), (''project_id'', JStr ''19294818''),
                 (''region'', JStr ''33''), (''position_numeric'', JNull),
                 (''is_not_ranking'', JBool True)]]),
        Inr (JInt 2), Inr (JInt 1),
        Inr (JObj [(''start'', JStr ''2025-08-15''), (''end'', JStr ''2025-08-16'')])]"
  by (simp add: positions_of_result_def raw_positions_def debug_info_of_def Let_def sbind_def
        dict_get_def dict_and_in_def has_key_def rows_of_result_data_def keyword_rows_def
        position_record_def position_numeric_of_def isdigit_def is_digit_char_def
        is_decimal_char_def int_of_digits_def decimal_value_def hashable_def py_eq_def
        num_value_def min_date_def max_date_def less_eq_char_def less_char_def
        list_le_def row_json_def)

section \<open>The registry of sessions\<close>

lemma dict_get_dict_set:
  "dict_get (dict_set d k v) k' = (if k' = k then Some v else dict_get d k')"
  by (induction d) (auto simp: dict_get_def)

text \<open>The order of the keys is the order of their first assignment: an assignment to a
  key that is there leaves the order as it is, a new key goes to the end.\<close>

lemma dict_set_keys:
  "map fst (dict_set d k v) = (if k \<in> set (map fst d) then map fst d else map fst d @ [k])"
  by (induction d) (auto simp: rev_image_eqI)

lemma dict_get_fold_set:
  "dict_get (fold (\<lambda>kv d. dict_set d (fst kv) (snd kv)) regs d) n =
     (case map_of (rev regs) n of Some s \<Rightarrow> Some s | None \<Rightarrow> dict_get d n)"
proof (induction regs arbitrary: d)
  case Nil
  then show ?case by simp
next
  case (Cons kv regs)
  show ?case
    by (cases kv) (auto simp: Cons dict_get_dict_set map_add_def split: option.splits)
qed

lemma sessions_fold_tool:
  "sessions (fold (register_tool s) ts chat) =
     fold (\<lambda>kv d. dict_set d (fst kv) (snd kv)) (map (\<lambda>t. (tool_name t, s)) ts) (sessions chat)"
  by (induction ts arbitrary: chat) (auto simp: register_tool_def)

lemma sessions_fold_prompt:
  "sessions (fold (register_prompt s) ps chat) =
     fold (\<lambda>kv d. dict_set d (fst kv) (snd kv)) (map (\<lambda>p. (prompt_name p, s)) ps) (sessions chat)"
  by (induction ps arbitrary: chat) (auto simp: register_prompt_def)

lemma sessions_fold_resource:
  "sessions (fold (register_resource s) us chat) =
     fold (\<lambda>kv d. dict_set d (fst kv) (snd kv)) (map (\<lambda>u. (u, s)) us) (sessions chat)"
  by (induction us arbitrary: chat) (auto simp: register_resource_def)

text \<open>Connecting a sub-service performs exactly its registrations, in order.\<close>

lemma sessions_connect_to_server:
  "sessions (connect_to_server srv chat) =
     fold (\<lambda>kv d. dict_set d (fst kv) (snd kv)) (registrations srv) (sessions chat)"
  by (simp add: connect_to_server_def registrations_def Let_def sessions_fold_tool
        sessions_fold_prompt sessions_fold_resource split: reply.splits)

lemma sessions_connect_to_servers:
  "sessions (connect_to_servers srvs chat) =
     fold (\<lambda>kv d. dict_set d (fst kv) (snd kv)) (concat (map registrations srvs)) (sessions chat)"
  unfolding connect_to_servers_def
  by (induction srvs arbitrary: chat) (simp_all add: sessions_connect_to_server)

lemma registrations_session:
  "(k, s) \<in> set (registrations srv) \<Longrightarrow> srv_session srv = Replied s"
  by (auto simp: registrations_def split: reply.splits)

lemma map_of_rev_registrations:
  "map_of (rev (registrations srv)) name =
     (if name \<in> fst ` set (registrations srv)
      then (case srv_session srv of Replied s \<Rightarrow> Some s | Raised \<Rightarrow> None) else None)"
proof (cases "name \<in> fst ` set (registrations srv)")
  case False
  then have "name \<notin> fst ` set (rev (registrations srv))" by simp
  then have "map_of (rev (registrations srv)) name = None" by (simp add: map_of_eq_None_iff)
  with False show ?thesis by simp
next
  case True
  then have "name \<in> fst ` set (rev (registrations srv))" by simp
  then obtain s where m: "map_of (rev (registrations srv)) name = Some s"
    by (metis map_of_eq_None_iff not_Some_eq)
  then have "(name, s) \<in> set (registrations srv)" by (auto dest: map_of_SomeD)
  then have "srv_session srv = Replied s" by (rule registrations_session)
  with True m show ?thesis by simp
qed

lemma lookup_connect_to_server:
  "lookup_session (connect_to_server srv chat) name =
     (case map_of (rev (registrations srv)) name of
        Some session \<Rightarrow> Some session
      | None \<Rightarrow> lookup_session chat name)"
  by (simp add: lookup_session_def sessions_connect_to_server dict_get_fold_set split: option.splits)

lemma lookup_connect_to_servers:
  "lookup_session (connect_to_servers servers chat) name =
     (case map_of (rev (concat (map registrations servers))) name of
        Some session \<Rightarrow> Some session
      | None \<Rightarrow> lookup_session chat name)"
  by (simp add: lookup_session_def sessions_connect_to_servers dict_get_fold_set split: option.splits)

text \<open>
  C4, as stated, fails: when two sub-services register the tool \<open>search\<close>, the lookup
  returns the session of the second, not of the first.
\<close>

theorem first_registrant_wins_counterexample:
  "lookup_session
     (connect_to_servers [example_server 1 ''search'', example_server 2 ''search''] new_chatbot)
     ''search'' = Some 2 \<and>
   lookup_session
     (connect_to_servers [example_server 1 ''search'', example_server 2 ''search''] new_chatbot)
     ''search'' \<noteq> Some 1"
  by (simp add: lookup_session_def connect_to_servers_def connect_to_server_def example_server_def
        new_chatbot_def register_tool_def dict_get_def)

text \<open>
  C4, amended.  A lookup is one reading of the dictionary: after a sub-service is
  connected, every name it registered maps to its session, whatever the name mapped to
  before, and every other name maps to what it mapped to before.  After all sub-services
  are connected a name maps to the session of its last registration: the last registrant
  wins, a duplicate overwrites, and nothing else is tried.
\<close>

theorem last_registrant_wins:
  "lookup_session (connect_to_server srv chat) name =
     (if name \<in> fst ` set (registrations srv)
      then (case srv_session srv of Replied s \<Rightarrow> Some s | Raised \<Rightarrow> None)
      else lookup_session chat name) \<and>
   lookup_session (connect_to_servers servers chat) name =
     (case map_of (rev (concat (map registrations servers))) name of
        Some session \<Rightarrow> Some session
      | None \<Rightarrow> lookup_session chat name)"
proof
  show "lookup_session (connect_to_server srv chat) name =
     (if name \<in> fst ` set (registrations srv)
      then (case srv_session srv of Replied s \<Rightarrow> Some s | Raised \<Rightarrow> None)
      else lookup_session chat name)"
  proof (cases "name \<in> fst ` set (registrations srv)")
    case False
    then show ?thesis
      by (simp add: lookup_connect_to_server map_of_rev_registrations)
  next
    case True
    then obtain s where "(name, s) \<in> set (registrations srv)" by auto
    then have "srv_session srv = Replied s" by (rule registrations_session)
    with True show ?thesis
      by (simp add: lookup_connect_to_server map_of_rev_registrations)
  qed
  show "lookup_session (connect_to_servers servers chat) name =
     (case map_of (rev (concat (map registrations servers))) name of
        Some session \<Rightarrow> Some session
      | None \<Rightarrow> lookup_session chat name)"
    by (rule lookup_connect_to_servers)
qed

theorem last_registrant_wins_witness:
  "lookup_session
     (connect_to_server (example_server 2 ''search'')
        (connect_to_server (example_server 1 ''search'') new_chatbot)) ''search'' = Some 2 \<and>
   lookup_session
     (connect_to_server (example_server 2 ''search'')
        (connect_to_server (example_server 1 ''fetch'') new_chatbot)) ''fetch'' = Some 1"
  using last_registrant_wins
          [of "example_server 2 ''search''" "connect_to_server (example_server 1 ''search'') new_chatbot"
              "''search''" "[]"]
        last_registrant_wins
          [of "example_server 2 ''search''" "connect_to_server (example_server 1 ''fetch'') new_chatbot"
              "''fetch''" "[]"]
        last_registrant_wins [of "example_server 1 ''fetch''" new_chatbot "''fetch''" "[]"]
  by (simp add: registrations_def example_server_def)

section \<open>Resource lookup\<close>

lemma find_first: "P x \<Longrightarrow> \<forall>y\<in>set pre. \<not> P y \<Longrightarrow> find P (pre @ x # post) = Some x"
  by (induction pre) auto

lemma find_none: "\<forall>y\<in>set xs. \<not> P y \<Longrightarrow> find P xs = None"
  by (induction xs) auto

text \<open>
  C7.  For a URI that is not a key of the registry: if it does not start with
  \<open>papers://\<close> the lookup reports "not found"; if it does, the session asked is that of
  the first key, in the order of the registry, that starts with \<open>papers://\<close>, and the
  lookup reports "not found" when no key does.
\<close>

theorem get_resource_fallback:
  "dict_get (sessions chat) uri = None \<Longrightarrow>
   (\<not> startswith uri ''papers://'' \<longrightarrow> get_resource chat uri = Resource_not_found uri) \<and>
   (startswith uri ''papers://'' \<longrightarrow>
      (\<forall>pre u s post.
          sessions chat = pre @ (u, s) # post \<and> startswith u ''papers://'' \<and>
          (\<forall>kv\<in>set pre. \<not> startswith (fst kv) ''papers://'') \<longrightarrow>
          get_resource chat uri = Read_resource s uri) \<and>
      ((\<forall>kv\<in>set (sessions chat). \<not> startswith (fst kv) ''papers://'') \<longrightarrow>
          get_resource chat uri = Resource_not_found uri))"
proof (intro conjI impI allI)
  assume n: "dict_get (sessions chat) uri = None"
  { assume "\<not> startswith uri ''papers://''"
    then show "get_resource chat uri = Resource_not_found uri"
      using n by (simp add: get_resource_def) }
  { fix pre u s post
    assume p: "startswith uri ''papers://''"
      and d: "sessions chat = pre @ (u, s) # post \<and> startswith u ''papers://'' \<and>
          (\<forall>kv\<in>set pre. \<not> startswith (fst kv) ''papers://'')"
    have "find (\<lambda>(k, v). startswith k ''papers://'') (pre @ (u, s) # post) = Some (u, s)"
      using d by (intro find_first) (auto simp: case_prod_beta)
    then show "get_resource chat uri = Read_resource s uri"
      using n p d by (simp add: get_resource_def) }
  { assume p: "startswith uri ''papers://''"
      and d: "\<forall>kv\<in>set (sessions chat). \<not> startswith (fst kv) ''papers://''"
    have "find (\<lambda>(k, v). startswith k ''papers://'') (sessions chat) = None"
      using d by (intro find_none) (auto simp: case_prod_beta)
    then show "get_resource chat uri = Resource_not_found uri"
      using n p by (simp add: get_resource_def) }
qed

theorem get_resource_fallback_witness:
  "dict_get (sessions example_chat) ''papers://math'' = None \<and>
   startswith ''papers://math'' ''papers://'' \<and>
   get_resource example_chat ''papers://math'' = Read_resource 2 ''papers://math'' \<and>
   dict_get (sessions example_chat) ''notes://math'' = None \<and>
   \<not> startswith ''notes://math'' ''papers://'' \<and>
   get_resource example_chat ''notes://math'' = Resource_not_found ''notes://math''"
proof -
  have n1: "dict_get (sessions example_chat) ''papers://math'' = None"
    by (simp add: example_chat_def dict_get_def)
  have n2: "dict_get (sessions example_chat) ''notes://math'' = None"
    by (simp add: example_chat_def dict_get_def)
  have s1: "startswith ''papers://math'' ''papers://''" by (simp add: startswith_def)
  have s2: "\<not> startswith ''notes://math'' ''papers://''" by (simp add: startswith_def)
  have d: "sessions example_chat =
             [(''search_papers'', 1)] @ (''papers://folders'', 2) # [(''papers://ai'', 3)] \<and>
           startswith ''papers://folders'' ''papers://'' \<and>
           (\<forall>kv\<in>set [(''search_papers'', 1::nat)]. \<not> startswith (fst kv) ''papers://'')"
    by (simp add: example_chat_def startswith_def)
  from get_resource_fallback[OF n1] s1 d
  have "get_resource example_chat ''papers://math'' = Read_resource 2 ''papers://math''"
    by blast
  moreover from get_resource_fallback[OF n2] s2
  have "get_resource example_chat ''notes://math'' = Resource_not_found ''notes://math''"
    by blast
  ultimately show ?thesis using n1 n2 s1 s2 by simp
qed

section \<open>Envelopes of the tools\<close>

lemma fst_try_except:
  "(\<And>e. P (h e)) \<Longrightarrow> (\<And>x log'. body log = (Inr x, log') \<Longrightarrow> P x) \<Longrightarrow>
   P (fst (try_except body h log))"
  by (auto simp: try_except_def split: prod.splits sum.splits)

lemma bnd_Inr:
  "bnd m f log = (Inr y, log'') \<Longrightarrow> \<exists>x log'. m log = (Inr x, log') \<and> f x log' = (Inr y, log'')"
  by (auto simp: bnd_def split: prod.splits sum.splits)

lemma lift_Inr: "lift r log = (Inr y, log') \<Longrightarrow> r = Inr y"
  by (simp add: lift_def)

lemma total_Inr: "total f log = (Inr y, log') \<Longrightarrow> y = fst (f log)"
  by (auto simp: total_def split: prod.splits)

lemma ret_lift: "ret x = lift (Inr x)"
  by (simp add: ret_def lift_def)

text \<open>A tool of the common shape (construct, call, normalise, catch everything) returns
  what its handler or its normaliser returns.\<close>

lemma tool_shape:
  assumes "\<And>e. P (h e)" and "\<And>result y. f result = Inr y \<Longrightarrow> P y"
  shows "P (fst (try_except (bnd init (\<lambda>c. bnd (call c) (\<lambda>result. lift (f result)))) h log))"
proof (rule fst_try_except)
  show "P (h e)" for e by (rule assms(1))
  fix x log'
  assume "bnd init (\<lambda>c. bnd (call c) (\<lambda>result. lift (f result))) log = (Inr x, log')"
  then obtain c l1 where "bnd (call c) (\<lambda>result. lift (f result)) l1 = (Inr x, log')"
    by (blast dest: bnd_Inr)
  then obtain result l2 where "lift (f result) l2 = (Inr x, log')"
    by (blast dest: bnd_Inr)
  then have "f result = Inr x" by (rule lift_Inr)
  then show "P x" by (rule assms(2))
qed

lemma error_envelope_ok:
  "dict_get extra ''error'' = None \<Longrightarrow> envelope_ok (error_envelope m extra)"
  by (simp add: envelope_ok_def error_envelope_def has_key_def status_of_def dict_get_def)

lemmas env_simps = envelope_ok_def error_envelope_def has_key_def status_of_def dict_get_def sbind_def

lemma projects_of_result_ok: "projects_of_result w result = Inr y \<Longrightarrow> envelope_ok y"
  by (auto simp: projects_of_result_def env_simps split: sum.splits if_splits)

lemma keywords_of_result_ok: "keywords_of_result p result = Inr y \<Longrightarrow> envelope_ok y"
  by (auto simp: keywords_of_result_def env_simps split: sum.splits if_splits)

lemma summary_of_result_ok: "summary_of_result p d1 d2 result = Inr y \<Longrightarrow> envelope_ok y"
  by (auto simp: summary_of_result_def env_simps split: sum.splits if_splits)

lemma competitors_of_result_ok: "competitors_of_result p result = Inr y \<Longrightarrow> envelope_ok y"
  by (auto simp: competitors_of_result_def env_simps split: sum.splits if_splits)

lemma regions_of_result_ok: "regions_of_result p result = Inr y \<Longrightarrow> envelope_ok y"
  by (auto simp: regions_of_result_def env_simps split: sum.splits if_splits)

lemma folders_of_result_ok: "folders_of_result p result = Inr y \<Longrightarrow> envelope_ok y"
  by (auto simp: folders_of_result_def env_simps split: sum.splits if_splits)

lemma groups_of_result_ok: "groups_of_result p f result = Inr y \<Longrightarrow> envelope_ok y"
  by (auto simp: groups_of_result_def env_simps split: sum.splits if_splits)

lemma balance_of_result_ok: "balance_of_result result = Inr y \<Longrightarrow> envelope_ok y"
  by (auto simp: balance_of_result_def env_simps split: sum.splits if_splits)

lemma positions_of_result_ok:
  "positions_of_result w p r d1 d2 l off result = Inr y \<Longrightarrow> envelope_ok y"
  by (auto simp: positions_of_result_def Let_def env_simps split: sum.splits if_splits prod.splits)

lemma refdomains_of_result_ok: "refdomains_of_result w t l ob result = Inr y \<Longrightarrow> envelope_ok y"
  by (auto simp: refdomains_of_result_def ahrefs_of_result_def env_simps split: sum.splits if_splits)

lemma backlinks_of_result_ok: "backlinks_of_result w t l ob result = Inr y \<Longrightarrow> envelope_ok y"
  by (auto simp: backlinks_of_result_def ahrefs_of_result_def env_simps split: sum.splits if_splits)

lemma organic_of_result_ok: "organic_of_result w t l ob d result = Inr y \<Longrightarrow> envelope_ok y"
  by (auto simp: organic_of_result_def ahrefs_of_result_def env_simps split: sum.splits if_splits)

lemma check_topvisor_result_ok: "check_topvisor_result w result = Inr y \<Longrightarrow> envelope_ok y"
  by (auto simp: check_topvisor_result_def Let_def env_simps split: sum.splits if_splits)

lemma check_ahrefs_result_ok: "check_ahrefs_result w result = Inr y \<Longrightarrow> envelope_ok y"
  by (auto simp: check_ahrefs_result_def Let_def env_simps split: sum.splits if_splits)

lemma research_server_regions_of_result_ok:
  "research_server_regions_of_result p result = Inr y \<Longrightarrow> envelope_ok y"
  by (auto simp: research_server_regions_of_result_def env_simps split: sum.splits if_splits)

lemma research_server_ahrefs_of_result_ok:
  "research_server_ahrefs_of_result w k failure
      [(''status'', JStr ''success''), (''target'', JStr t)] rest result = Inr y \<Longrightarrow>
   k \<noteq> ''error'' \<Longrightarrow> dict_get rest ''error'' = None \<Longrightarrow> envelope_ok y"
  by (auto simp: research_server_ahrefs_of_result_def env_simps split: sum.splits if_splits)

lemma get_topvisor_projects_ok: "envelope_ok (fst (get_topvisor_projects w log))"
  unfolding get_topvisor_projects_def
  by (rule tool_shape[where P = envelope_ok])
     (simp_all add: error_envelope_ok projects_of_result_ok dict_get_def)

lemma get_topvisor_keywords_ok: "envelope_ok (fst (get_topvisor_keywords w p f g log))"
  unfolding get_topvisor_keywords_def
  by (rule tool_shape[where P = envelope_ok])
     (simp_all add: error_envelope_ok keywords_of_result_ok dict_get_def)

lemma get_topvisor_positions_history_ok:
  "envelope_ok (fst (get_topvisor_positions_history w p r d1 d2 l off log))"
  unfolding get_topvisor_positions_history_def
  by (rule tool_shape[where P = envelope_ok])
     (simp_all add: error_envelope_ok positions_of_result_ok dict_get_def)

lemma get_topvisor_positions_summary_ok:
  "envelope_ok (fst (get_topvisor_positions_summary w p d1 d2 log))"
  unfolding get_topvisor_positions_summary_def
  by (rule tool_shape[where P = envelope_ok])
     (simp_all add: error_envelope_ok summary_of_result_ok dict_get_def)

lemma get_topvisor_competitors_ok: "envelope_ok (fst (get_topvisor_competitors w p log))"
  unfolding get_topvisor_competitors_def
  by (rule tool_shape[where P = envelope_ok])
     (simp_all add: error_envelope_ok competitors_of_result_ok dict_get_def)

lemma get_topvisor_regions_ok: "envelope_ok (fst (get_topvisor_regions w p log))"
  unfolding get_topvisor_regions_def
  by (rule tool_shape[where P = envelope_ok])
     (simp_all add: error_envelope_ok regions_of_result_ok dict_get_def)

lemma get_topvisor_keyword_folders_ok: "envelope_ok (fst (get_topvisor_keyword_folders w p log))"
  unfolding get_topvisor_keyword_folders_def
  by (rule tool_shape[where P = envelope_ok])
     (simp_all add: error_envelope_ok folders_of_result_ok dict_get_def)

lemma get_topvisor_keyword_groups_ok: "envelope_ok (fst (get_topvisor_keyword_groups w p f log))"
  unfolding get_topvisor_keyword_groups_def
  by (rule tool_shape[where P = envelope_ok])
     (simp_all add: error_envelope_ok groups_of_result_ok dict_get_def)

lemma get_topvisor_balance_ok: "envelope_ok (fst (get_topvisor_balance w log))"
  unfolding get_topvisor_balance_def
  by (rule tool_shape[where P = envelope_ok])
     (simp_all add: error_envelope_ok balance_of_result_ok dict_get_def)

text \<open>This tool wraps whatever the client returned, an error dictionary included, under
  \<^verbatim>\<open>"keywords_data"\<close> with status \<^verbatim>\<open>"success"\<close>: the \<^verbatim>\<open>"error"\<close> key is then one level down.\<close>

lemma get_topvisor_project_keywords_ok: "envelope_ok (fst (get_topvisor_project_keywords w p log))"
  unfolding get_topvisor_project_keywords_def ret_lift
  by (rule tool_shape[where P = envelope_ok]) (auto simp: error_envelope_ok env_simps)

lemma get_ahrefs_refdomains_ok: "envelope_ok (fst (get_ahrefs_refdomains w t l log))"
  unfolding get_ahrefs_refdomains_def Let_def
  by (rule tool_shape[where P = envelope_ok])
     (simp_all add: error_envelope_ok refdomains_of_result_ok dict_get_def)

lemma get_ahrefs_backlinks_ok: "envelope_ok (fst (get_ahrefs_backlinks w t l log))"
  unfolding get_ahrefs_backlinks_def Let_def
  by (rule tool_shape[where P = envelope_ok])
     (simp_all add: error_envelope_ok backlinks_of_result_ok dict_get_def)

lemma get_ahrefs_organic_keywords_ok: "envelope_ok (fst (get_ahrefs_organic_keywords w t l d log))"
  unfolding get_ahrefs_organic_keywords_def Let_def
  by (rule tool_shape[where P = envelope_ok])
     (simp_all add: error_envelope_ok organic_of_result_ok dict_get_def)

lemma research_server_get_topvisor_regions_ok:
  "envelope_ok (fst (research_server_get_topvisor_regions w p log))"
  unfolding research_server_get_topvisor_regions_def
  by (rule tool_shape[where P = envelope_ok])
     (simp_all add: error_envelope_ok research_server_regions_of_result_ok dict_get_def)

lemma research_server_get_ahrefs_refdomains_ok:
  "envelope_ok (fst (research_server_get_ahrefs_refdomains w t l ob log))"
  unfolding research_server_get_ahrefs_refdomains_def
  by (rule tool_shape[where P = envelope_ok])
     (auto simp: error_envelope_ok dict_get_def
           intro: research_server_ahrefs_of_result_ok[unfolded dict_get_def])

lemma research_server_get_ahrefs_backlinks_ok:
  "envelope_ok (fst (research_server_get_ahrefs_backlinks w t l ob log))"
  unfolding research_server_get_ahrefs_backlinks_def
  by (rule tool_shape[where P = envelope_ok])
     (auto simp: error_envelope_ok dict_get_def
           intro: research_server_ahrefs_of_result_ok[unfolded dict_get_def])

lemma research_server_get_ahrefs_organic_keywords_ok:
  "envelope_ok (fst (research_server_get_ahrefs_organic_keywords w t l d ob log))"
  unfolding research_server_get_ahrefs_organic_keywords_def
  by (rule tool_shape[where P = envelope_ok])
     (auto simp: error_envelope_ok dict_get_def
           intro: research_server_ahrefs_of_result_ok[unfolded dict_get_def])

text \<open>The two setup checks: an early return, then a nested \<^verbatim>\<open>try\<close>.\<close>

lemma setup_shape:
  assumes "envelope_ok e0" and "\<And>e. envelope_ok (h1 e)" and "\<And>e. envelope_ok (h2 e)"
    and "\<And>result y. f result = Inr y \<Longrightarrow> envelope_ok y"
  shows "envelope_ok (fst (try_except
           (if c then ret e0
            else total (try_except (bnd init (\<lambda>c. bnd (call c) (\<lambda>result. lift (f result)))) h2))
           h1 log))"
proof (rule fst_try_except)
  show "envelope_ok (h1 e)" for e by (rule assms(2))
  fix x log'
  assume a: "(if c then ret e0
       else total (try_except (bnd init (\<lambda>c. bnd (call c) (\<lambda>result. lift (f result)))) h2)) log
       = (Inr x, log')"
  show "envelope_ok x"
  proof (cases c)
    case True
    with a have "x = e0" by (simp add: ret_def)
    then show ?thesis using assms(1) by simp
  next
    case False
    with a have "x = fst (try_except (bnd init (\<lambda>c. bnd (call c) (\<lambda>result. lift (f result)))) h2 log)"
      by (auto dest: total_Inr)
    then show ?thesis using tool_shape[where P = envelope_ok, OF assms(3) assms(4)] by simp
  qed
qed

lemma check_topvisor_setup_ok: "envelope_ok (fst (check_topvisor_setup w log))"
  unfolding check_topvisor_setup_def
  by (rule setup_shape)
     (simp_all add: error_envelope_ok check_topvisor_result_ok check_topvisor_api_error_def
        dict_get_def Let_def)

lemma check_ahrefs_setup_ok: "envelope_ok (fst (check_ahrefs_setup w log))"
  unfolding check_ahrefs_setup_def
  by (rule setup_shape) (simp_all add: error_envelope_ok check_ahrefs_result_ok dict_get_def)

lemma tool_envelope_ok: "envelope_ok (fst (tool w call log))"
  by (cases call)
     (simp_all add: get_topvisor_projects_ok get_topvisor_keywords_ok
        get_topvisor_positions_history_ok get_topvisor_positions_summary_ok
        get_topvisor_competitors_ok get_topvisor_regions_ok get_topvisor_keyword_folders_ok
        get_topvisor_keyword_groups_ok get_topvisor_balance_ok get_topvisor_project_keywords_ok
        get_ahrefs_refdomains_ok get_ahrefs_backlinks_ok get_ahrefs_organic_keywords_ok
        research_server_get_topvisor_regions_ok research_server_get_ahrefs_refdomains_ok
        research_server_get_ahrefs_backlinks_ok research_server_get_ahrefs_organic_keywords_ok
        check_topvisor_setup_ok check_ahrefs_setup_ok)

text \<open>
  C9.  Whatever the environment, the provider and the arguments, the envelope of every
  tool has no \<^verbatim>\<open>"error"\<close> key at its top level and has status \<^verbatim>\<open>"success"\<close>,
  \<^verbatim>\<open>"warning"\<close> or \<^verbatim>\<open>"error"\<close>; so no envelope has both status \<^verbatim>\<open>"success"\<close> and an
  \<^verbatim>\<open>"error"\<close> key.
\<close>

theorem tool_status_excludes_error_key:
  "\<not> has_key (fst (tool w call log)) ''error'' \<and>
   status_of (fst (tool w call log)) \<in>
     {Some (JStr ''success''), Some (JStr ''warning''), Some (JStr ''error'')} \<and>
   \<not> (status_of (fst (tool w call log)) = Some (JStr ''success'') \<and>
      has_key (fst (tool w call log)) ''error'')"
  using tool_envelope_ok[of w call log] by (simp add: envelope_ok_def)

lemma projects_of_result_raw: "projects_of_result w raw_projects = Inr normalized_projects"
  by (simp add: projects_of_result_def raw_projects_def normalized_projects_def and_in_def
        sbind_def dict_get_def items_fields_def item_fields_def)

lemma status_of_normalized_projects: "status_of normalized_projects = Some (JStr ''success'')"
  by (simp add: normalized_projects_def status_of_def dict_get_def)

lemma TopvisorAPI_make_request_returns:
  "TopvisorAPI_make_request w self endpoint payload csv log =
     (Inr (TopvisorAPI_classify csv (transport w (TopvisorAPI_request self endpoint payload))),
      log @ [TopvisorAPI_request self endpoint payload])"
  by (simp add: TopvisorAPI_make_request_def Let_def)

lemma AhrefsAPI_make_request_returns:
  "AhrefsAPI_make_request w self endpoint params log =
     (Inr (AhrefsAPI_classify (transport w (AhrefsAPI_request self endpoint params))),
      log @ [AhrefsAPI_request self endpoint params])"
  by (simp add: AhrefsAPI_make_request_def Let_def)

lemma get_topvisor_projects_example:
  "fst (get_topvisor_projects (example_world (http 200 raw_projects)) []) = normalized_projects"
  by (simp add: get_topvisor_projects_def try_except_def bnd_def lift_def ret_def
        TopvisorAPI_default_def TopvisorAPI_init_def TopvisorAPI_get_projects_def
        TopvisorAPI_make_request_returns TopvisorAPI_classify_def example_world_def http_def
        projects_of_result_raw)

theorem tool_status_excludes_error_key_witness:
  "status_of (fst (tool (example_world (http 200 raw_projects)) Get_topvisor_projects [])) =
     Some (JStr ''success'') \<and>
   \<not> has_key (fst (tool (example_world (http 200 raw_projects)) Get_topvisor_projects [])) ''error''"
  using tool_status_excludes_error_key
          [of "example_world (http 200 raw_projects)" Get_topvisor_projects "[]"]
  by (simp add: get_topvisor_projects_example status_of_normalized_projects)

section \<open>The clients never raise, with one exception\<close>

lemma TopvisorAPI_classify_error:
  "(\<forall>r. out = Response r \<longrightarrow> status_code r \<noteq> 200) \<Longrightarrow>
   has_key (TopvisorAPI_classify csv out) ''error''"
  by (auto simp: TopvisorAPI_classify_def has_key_def dict_get_def split: outcome.splits)

lemma AhrefsAPI_classify_error:
  "(\<forall>r. out = Response r \<longrightarrow> status_code r \<noteq> 200) \<Longrightarrow>
   has_key (AhrefsAPI_classify out) ''error''"
  by (auto simp: AhrefsAPI_classify_def has_key_def dict_get_def split: outcome.splits)

text \<open>Every method except \<^verbatim>\<open>get_project_regions\<close> sends one request and returns a
  dictionary, which has an \<^verbatim>\<open>"error"\<close> key whenever the outcome is not a response with
  status 200.\<close>

lemma client_method_envelope:
  assumes "\<forall>p. call \<noteq> Tv_get_project_regions p"
  shows "\<exists>req envelope.
           client_method w tv ah call log = (Inr envelope, log @ [req]) \<and>
           ((\<forall>r. transport w req = Response r \<longrightarrow> status_code r \<noteq> 200) \<longrightarrow>
              has_key envelope ''error'')"
  using assms
  by (cases call)
     (auto simp: TopvisorAPI_get_projects_def TopvisorAPI_get_project_keywords_def
        TopvisorAPI_get_project_positions_def TopvisorAPI_get_positions_summary_def
        TopvisorAPI_get_project_competitors_def TopvisorAPI_get_keyword_folders_def
        TopvisorAPI_get_keyword_groups_def TopvisorAPI_get_balance_info_def
        AhrefsAPI_get_refdomains_def AhrefsAPI_get_backlinks_def AhrefsAPI_get_organic_keywords_def
        TopvisorAPI_make_request_returns AhrefsAPI_make_request_returns Let_def
        intro!: TopvisorAPI_classify_error AhrefsAPI_classify_error)

text \<open>\<^verbatim>\<open>get_project_regions\<close> reads \<^verbatim>\<open>response["result"]\<close> from the dictionary of
  \<^verbatim>\<open>_make_request\<close>; on every outcome other than a response with status 200 that
  dictionary has no such key and the method raises \<^verbatim>\<open>KeyError\<close>.\<close>

lemma get_project_regions_raises:
  assumes "\<forall>r. transport w (TopvisorAPI_request self ''positions_2/searchers_regions/export''
                   (Some (JObj [(''project_id'', JInt project_id)]))) = Response r \<longrightarrow>
               status_code r \<noteq> 200"
  shows "fst (TopvisorAPI_get_project_regions w self project_id log) = Inl (KeyError ''result'')"
  using assms
  by (auto simp: TopvisorAPI_get_project_regions_def TopvisorAPI_make_request_returns bnd_def
        lift_def regions_of_response_def TopvisorAPI_classify_def dict_get_def
        split: outcome.splits)

text \<open>
  C1 at a failing input.  The provider answers HTTP 401 to the CSV export of the regions
  of project 23059018: \<^verbatim>\<open>get_project_regions\<close> sends the request and raises
  \<^verbatim>\<open>KeyError('result')\<close> instead of returning a dictionary with an \<^verbatim>\<open>"error"\<close> key.
\<close>

theorem get_project_regions_raises_on_401:
  "client_method (example_world (http 401 JNull)) example_topvisor ah
     (Tv_get_project_regions 23059018) [] =
     (Inl (KeyError ''result''),
      [TopvisorAPI_request example_topvisor ''positions_2/searchers_regions/export''
         (Some (JObj [(''project_id'', JInt 23059018)]))])"
  by (simp add: TopvisorAPI_get_project_regions_def TopvisorAPI_make_request_returns bnd_def lift_def
        regions_of_response_def TopvisorAPI_classify_def dict_get_def example_world_def http_def)

text \<open>The tool above it catches the exception, so its caller sees the message of the
  \<^verbatim>\<open>KeyError\<close> and not the provider's error.\<close>

lemma get_topvisor_regions_on_401:
  "fst (get_topvisor_regions (example_world (http 401 JNull)) 23059018 []) =
     JObj [(''status'', JStr ''error''),
           (''message'', JStr (''Error getting regions: '' @ [CHR 0x27] @ ''result'' @ [CHR 0x27]))]"
  by (simp add: get_topvisor_regions_def try_except_def bnd_def lift_def ret_def
        TopvisorAPI_default_def TopvisorAPI_init_def
        TopvisorAPI_get_project_regions_def TopvisorAPI_make_request_returns
        regions_of_response_def TopvisorAPI_classify_def dict_get_def example_world_def http_def
        error_envelope_def)

section \<open>Referring domains, end to end\<close>

text \<open>
  C3 at its own scenario.  Target \<open>example.com\<close>, limit 1, the provider answers HTTP 200
  with one referring domain: the envelope of \<^verbatim>\<open>get_ahrefs_refdomains\<close> of src/tools/ahrefs.py
  has status, target, the one-entry array, limit and order_by, and no \<^verbatim>\<open>"total_count"\<close>.
\<close>

theorem get_ahrefs_refdomains_has_no_total_count:
  "fst (get_ahrefs_refdomains (example_world (http 200 raw_refdomains)) ''example.com'' 1 []) =
     JObj [(''status'', JStr ''success''), (''target'', JStr ''example.com''),
           (''refdomains'', JList [one_refdomain]),
           (''limit'', JInt 1), (''order_by'', JStr ''domain_rating:desc'')] \<and>
   \<not> has_key (fst (get_ahrefs_refdomains (example_world (http 200 raw_refdomains)) ''example.com'' 1 []))
        ''total_count''"
  by (simp add: get_ahrefs_refdomains_def try_except_def bnd_def lift_def ret_def AhrefsAPI_default_def
        AhrefsAPI_init_def AhrefsAPI_get_refdomains_def AhrefsAPI_make_request_returns
        AhrefsAPI_classify_def example_world_def http_def raw_refdomains_def refdomains_of_result_def
        ahrefs_of_result_def sbind_def and_in_def dict_get_def has_key_def Let_def)

text \<open>The copy of the tool in src/research_server.py, on the same input, has
  \<^verbatim>\<open>"total_count": 1\<close>, the length of the array.\<close>

lemma research_server_get_ahrefs_refdomains_total_count:
  "fst (research_server_get_ahrefs_refdomains (example_world (http 200 raw_refdomains))
          ''example.com'' 1 ''domain_rating:desc'' []) =
     JObj [(''status'', JStr ''success''), (''target'', JStr ''example.com''),
           (''refdomains'', JList [one_refdomain]), (''total_count'', JInt 1),
           (''limit'', JInt 1), (''order_by'', JStr ''domain_rating:desc'')]"
  by (simp add: research_server_get_ahrefs_refdomains_def try_except_def bnd_def lift_def ret_def
        AhrefsAPI_default_def AhrefsAPI_init_def AhrefsAPI_get_refdomains_def
        AhrefsAPI_make_request_returns AhrefsAPI_classify_def example_world_def http_def
        raw_refdomains_def research_server_ahrefs_of_result_def sbind_def and_in_def dict_get_def
        Let_def)

section \<open>Normalising a normalised envelope\<close>

lemmas norm_simps = sbind_def error_envelope_def status_of_def dict_get_def

text \<open>A success envelope of an Ahrefs data tool is the one built in the data branch, and
  that envelope still has the provider's key and no \<^verbatim>\<open>"error"\<close> key.\<close>

lemma ahrefs_success_shape:
  assumes "ahrefs_of_result w k failure ((''status'', JStr ''success'') # hd_rest) tl_part result
             = Inr envelope"
    and "status_of envelope = Some (JStr ''success'')"
  shows "\<exists>data. envelope = JObj (((''status'', JStr ''success'') # hd_rest) @ [(k, data)] @ tl_part)"
  using assms
  by (auto simp: ahrefs_of_result_def norm_simps split: sum.splits if_splits)

lemma ahrefs_renormalize:
  assumes "k \<noteq> ''status''" "k \<noteq> ''error''" "map_of hd_rest k = None"
    and "map_of hd_rest ''error'' = None" "map_of tl_part ''error'' = None"
  shows "ahrefs_of_result w k failure ((''status'', JStr ''success'') # hd_rest) tl_part
           (JObj (((''status'', JStr ''success'') # hd_rest) @ [(k, data)] @ tl_part)) =
         Inr (JObj (((''status'', JStr ''success'') # hd_rest) @ [(k, data)] @ tl_part))"
  using assms
  by (simp add: ahrefs_of_result_def and_in_def norm_simps map_add_def)

lemma refdomains_renormalize:
  assumes "refdomains_of_result w t l ob result = Inr envelope"
    and "status_of envelope = Some (JStr ''success'')"
  shows "refdomains_of_result w t l ob envelope = Inr envelope"
proof -
  from assms obtain data where
    "envelope = JObj (((''status'', JStr ''success'') # [(''target'', JStr t)]) @
                      [(''refdomains'', data)] @ [(''limit'', JInt l), (''order_by'', JStr ob)])"
    unfolding refdomains_of_result_def by (blast dest: ahrefs_success_shape)
  then show ?thesis
    unfolding refdomains_of_result_def
    using ahrefs_renormalize [where k = "''refdomains''" and hd_rest = "[(''target'', JStr t)]"
            and tl_part = "[(''limit'', JInt l), (''order_by'', JStr ob)]"
            and w = w and data = data and failure = "''Failed to get referring domains data''"]
    by simp
qed

lemma backlinks_renormalize:
  assumes "backlinks_of_result w t l ob result = Inr envelope"
    and "status_of envelope = Some (JStr ''success'')"
  shows "backlinks_of_result w t l ob envelope = Inr envelope"
proof -
  from assms obtain data where
    "envelope = JObj (((''status'', JStr ''success'') # [(''target'', JStr t)]) @
                      [(''backlinks'', data)] @ [(''limit'', JInt l), (''order_by'', JStr ob)])"
    unfolding backlinks_of_result_def by (blast dest: ahrefs_success_shape)
  then show ?thesis
    unfolding backlinks_of_result_def
    using ahrefs_renormalize [where k = "''backlinks''" and hd_rest = "[(''target'', JStr t)]"
            and tl_part = "[(''limit'', JInt l), (''order_by'', JStr ob)]"
            and w = w and data = data and failure = "''Failed to get backlinks data''"]
    by simp
qed

lemma organic_renormalize:
  assumes "organic_of_result w t l ob d result = Inr envelope"
    and "status_of envelope = Some (JStr ''success'')"
  shows "organic_of_result w t l ob d envelope = Inr envelope"
proof -
  from assms obtain data where
    "envelope = JObj (((''status'', JStr ''success'') # [(''target'', JStr t)]) @
                      [(''keywords'', data)] @
                      [(''limit'', JInt l), (''order_by'', JStr ob), (''date'', opt_str d)])"
    unfolding organic_of_result_def by (blast dest: ahrefs_success_shape)
  then show ?thesis
    unfolding organic_of_result_def
    using ahrefs_renormalize [where k = "''keywords''" and hd_rest = "[(''target'', JStr t)]"
            and tl_part = "[(''limit'', JInt l), (''order_by'', JStr ob), (''date'', opt_str d)]"
            and w = w and data = data and failure = "''Failed to get organic keywords data''"]
    by simp
qed

text \<open>A success envelope of \<^verbatim>\<open>get_topvisor_projects\<close> has the keys \<^verbatim>\<open>status\<close>,
  \<^verbatim>\<open>projects\<close> and \<^verbatim>\<open>total_count\<close>: neither \<^verbatim>\<open>"error"\<close> nor \<^verbatim>\<open>"result"\<close>.\<close>

lemma projects_success_shape:
  assumes "projects_of_result w result = Inr envelope"
    and "status_of envelope = Some (JStr ''success'')"
  shows "\<exists>info. envelope = JObj [(''status'', JStr ''success''), (''projects'', JList info),
                                   (''total_count'', JInt (int (length info)))]"
  using assms
  by (auto simp: projects_of_result_def norm_simps split: sum.splits if_splits)

lemma projects_renormalize:
  assumes "projects_of_result w result = Inr envelope"
    and "status_of envelope = Some (JStr ''success'')"
  shows "projects_of_result w envelope =
     Inr (error_envelope ''Failed to get project data''
            [(''help'', JStr ''Check TOPVISOR_SETUP.md file for API key setup'')])"
proof -
  from assms obtain info where
    "envelope = JObj [(''status'', JStr ''success''), (''projects'', JList info),
                      (''total_count'', JInt (int (length info)))]"
    by (blast dest: projects_success_shape)
  then show ?thesis
    by (simp add: projects_of_result_def and_in_def sbind_def dict_get_def)
qed

text \<open>
  C2, as stated, fails: the branch of \<^verbatim>\<open>get_topvisor_projects\<close> turns the provider's
  answer with one project into a success envelope, and turns that envelope into
  something else.
\<close>

theorem projects_renormalization_counterexample:
  "projects_of_result (example_world (http 200 raw_projects)) raw_projects = Inr normalized_projects \<and>
   status_of normalized_projects = Some (JStr ''success'') \<and>
   projects_of_result (example_world (http 200 raw_projects)) normalized_projects
     \<noteq> Inr normalized_projects"
  by (simp add: projects_of_result_raw status_of_normalized_projects)
     (simp add: projects_of_result_def normalized_projects_def and_in_def sbind_def dict_get_def
        error_envelope_def)

text \<open>
  C2, amended.  The branch of each Ahrefs data tool (referring domains, backlinks, organic
  keywords) returns a success envelope unchanged when it is fed back with the same call
  arguments, because that envelope keeps the provider's key.  The branch of
  \<^verbatim>\<open>get_topvisor_projects\<close> does not: a success envelope fed back gives the error envelope
  "Failed to get project data".
\<close>

theorem renormalization:
  "(refdomains_of_result w target limit order_by result = Inr envelope \<and>
      status_of envelope = Some (JStr ''success'') \<longrightarrow>
      refdomains_of_result w target limit order_by envelope = Inr envelope) \<and>
   (backlinks_of_result w target limit order_by result = Inr envelope \<and>
      status_of envelope = Some (JStr ''success'') \<longrightarrow>
      backlinks_of_result w target limit order_by envelope = Inr envelope) \<and>
   (organic_of_result w target limit order_by date result = Inr envelope \<and>
      status_of envelope = Some (JStr ''success'') \<longrightarrow>
      organic_of_result w target limit order_by date envelope = Inr envelope) \<and>
   (projects_of_result w result = Inr envelope \<and>
      status_of envelope = Some (JStr ''success'') \<longrightarrow>
      projects_of_result w envelope =
        Inr (error_envelope ''Failed to get project data''
               [(''help'', JStr ''Check TOPVISOR_SETUP.md file for API key setup'')]))"
proof (intro conjI impI)
  assume "refdomains_of_result w target limit order_by result = Inr envelope \<and>
      status_of envelope = Some (JStr ''success'')"
  then show "refdomains_of_result w target limit order_by envelope = Inr envelope"
    using refdomains_renormalize[of w target limit order_by result envelope] by simp
next
  assume "backlinks_of_result w target limit order_by result = Inr envelope \<and>
      status_of envelope = Some (JStr ''success'')"
  then show "backlinks_of_result w target limit order_by envelope = Inr envelope"
    using backlinks_renormalize[of w target limit order_by result envelope] by simp
next
  assume "organic_of_result w target limit order_by date result = Inr envelope \<and>
      status_of envelope = Some (JStr ''success'')"
  then show "organic_of_result w target limit order_by date envelope = Inr envelope"
    using organic_renormalize[of w target limit order_by date result envelope] by simp
next
  assume "projects_of_result w result = Inr envelope \<and>
      status_of envelope = Some (JStr ''success'')"
  then show "projects_of_result w envelope =
        Inr (error_envelope ''Failed to get project data''
               [(''help'', JStr ''Check TOPVISOR_SETUP.md file for API key setup'')])"
    using projects_renormalize[of w result envelope] by simp
qed

theorem renormalization_witness:
  "refdomains_of_result (example_world (http 200 raw_refdomains)) ''example.com'' 1
     ''domain_rating:desc'' normalized_refdomains = Inr normalized_refdomains \<and>
   backlinks_of_result (example_world (http 200 raw_refdomains)) ''example.com'' 1
     ''domain_rating_source:desc''
     (JObj [(''status'', JStr ''success''), (''target'', JStr ''example.com''),
            (''backlinks'', JList []), (''limit'', JInt 1),
            (''order_by'', JStr ''domain_rating_source:desc'')]) =
     Inr (JObj [(''status'', JStr ''success''), (''target'', JStr ''example.com''),
                (''backlinks'', JList []), (''limit'', JInt 1),
                (''order_by'', JStr ''domain_rating_source:desc'')]) \<and>
   organic_of_result (example_world (http 200 raw_refdomains)) ''example.com'' 1
     ''best_position:asc'' None
     (JObj [(''status'', JStr ''success''), (''target'', JStr ''example.com''),
            (''keywords'', JList []), (''limit'', JInt 1),
            (''order_by'', JStr ''best_position:asc''), (''date'', JNull)]) =
     Inr (JObj [(''status'', JStr ''success''), (''target'', JStr ''example.com''),
                (''keywords'', JList []), (''limit'', JInt 1),
                (''order_by'', JStr ''best_position:asc''), (''date'', JNull)]) \<and>
   projects_of_result (example_world (http 200 raw_projects)) normalized_projects =
     Inr (error_envelope ''Failed to get project data''
            [(''help'', JStr ''Check TOPVISOR_SETUP.md file for API key setup'')])"
proof -
  let ?w = "example_world (http 200 raw_refdomains)"
  let ?v = "example_world (http 200 raw_projects)"
  let ?b = "JObj [(''status'', JStr ''success''), (''target'', JStr ''example.com''),
                  (''backlinks'', JList []), (''limit'', JInt 1),
                  (''order_by'', JStr ''domain_rating_source:desc'')]"
  let ?k = "JObj [(''status'', JStr ''success''), (''target'', JStr ''example.com''),
                  (''keywords'', JList []), (''limit'', JInt 1),
                  (''order_by'', JStr ''best_position:asc''), (''date'', JNull)]"
  have h1: "refdomains_of_result ?w ''example.com'' 1 ''domain_rating:desc'' raw_refdomains =
              Inr normalized_refdomains"
    by (simp add: refdomains_of_result_def ahrefs_of_result_def raw_refdomains_def
          normalized_refdomains_def and_in_def sbind_def dict_get_def)
  have s1: "status_of normalized_refdomains = Some (JStr ''success'')"
    by (simp add: normalized_refdomains_def status_of_def dict_get_def)
  have h2: "backlinks_of_result ?w ''example.com'' 1 ''domain_rating_source:desc''
              (JObj [(''backlinks'', JList [])]) = Inr ?b"
    by (simp add: backlinks_of_result_def ahrefs_of_result_def and_in_def sbind_def dict_get_def)
  have s2: "status_of ?b = Some (JStr ''success'')"
    by (simp add: status_of_def dict_get_def)
  have h3: "organic_of_result ?w ''example.com'' 1 ''best_position:asc'' None
              (JObj [(''keywords'', JList [])]) = Inr ?k"
    by (simp add: organic_of_result_def ahrefs_of_result_def and_in_def sbind_def dict_get_def
          opt_str_def)
  have s3: "status_of ?k = Some (JStr ''success'')"
    by (simp add: status_of_def dict_get_def)
  have h4: "projects_of_result ?v raw_projects = Inr normalized_projects"
    by (rule projects_of_result_raw)
  have s4: "status_of normalized_projects = Some (JStr ''success'')"
    by (rule status_of_normalized_projects)
  have c1: "refdomains_of_result ?w ''example.com'' 1 ''domain_rating:desc'' normalized_refdomains =
              Inr normalized_refdomains"
    using conjunct1 [OF renormalization
            [where w = ?w and target = "''example.com''" and limit = 1
               and order_by = "''domain_rating:desc''" and date = None
               and result = raw_refdomains and envelope = normalized_refdomains]]
          h1 s1
    by simp
  have c2: "backlinks_of_result ?w ''example.com'' 1 ''domain_rating_source:desc'' ?b = Inr ?b"
    using conjunct1 [OF conjunct2 [OF renormalization
            [where w = ?w and target = "''example.com''" and limit = 1
               and order_by = "''domain_rating_source:desc''" and date = None
               and result = "JObj [(''backlinks'', JList [])]" and envelope = ?b]]]
          h2 s2
    by simp
  have c3: "organic_of_result ?w ''example.com'' 1 ''best_position:asc'' None ?k = Inr ?k"
    using conjunct1 [OF conjunct2 [OF conjunct2 [OF renormalization
            [where w = ?w and target = "''example.com''" and limit = 1
               and order_by = "''best_position:asc''" and date = None
               and result = "JObj [(''keywords'', JList [])]" and envelope = ?k]]]]
          h3 s3
    by simp
  have c4: "projects_of_result ?v normalized_projects =
              Inr (error_envelope ''Failed to get project data''
                     [(''help'', JStr ''Check TOPVISOR_SETUP.md file for API key setup'')])"
    using conjunct2 [OF conjunct2 [OF conjunct2 [OF renormalization
            [where w = ?v and target = "''example.com''" and limit = 1
               and order_by = "''domain_rating:desc''" and date = None
               and result = raw_projects and envelope = normalized_projects]]]]
          h4 s4
    by simp
  show ?thesis using c1 c2 c3 c4 by simp
qed

end
